theory Spec2Isabelle
  imports Main "HOL-Library.Sublist"
begin

section \<open>Python values and errors\<close>

text \<open>
  The exceptions the modelled code can raise. \<open>ExternalError\<close> stands for whatever an
  external collaborator (workspace service, agent framework, file system) raises; its
  argument is the message.
\<close>

datatype error =
    ValueError string
  | KeyError string
  | IndexError
  | TypeError
  | AttributeError string
  | ExternalError string

subsection \<open>\<open>str(int)\<close>: the decimal rendering an f-string uses for an integer field\<close>

definition digit_char :: "nat \<Rightarrow> char" where
  "digit_char d = char_of (48 + d)"

function str_nat :: "nat \<Rightarrow> string" where
  "str_nat n = (if n < 10 then [digit_char n] else str_nat (n div 10) @ [digit_char (n mod 10)])"
  by pat_completeness auto
termination
  by (relation "measure (\<lambda>n. n)") auto

declare str_nat.simps [simp del]

definition str_int :: "int \<Rightarrow> string" where
  "str_int i = (if i < 0 then CHR ''-'' # str_nat (nat (- i)) else str_nat (nat i))"

text \<open>Reading a decimal numeral back (\<open>int(s)\<close> on the strings \<open>str\<close> produces).\<close>

definition digit_val :: "char \<Rightarrow> nat" where
  "digit_val c = of_char c - 48"

definition nat_of_str :: "string \<Rightarrow> nat" where
  "nat_of_str s = foldl (\<lambda>a c. 10 * a + digit_val c) 0 s"

definition int_of_str :: "string \<Rightarrow> int" where
  "int_of_str s =
     (case s of
        [] \<Rightarrow> 0
      | c # cs \<Rightarrow> if c = CHR ''-'' then - int (nat_of_str cs) else int (nat_of_str s))"

section \<open>The EditFile action (edit\_cmd.py)\<close>

record EditFileRequest =
  start_line :: int
  end_line :: int
  replacement_text :: string

text \<open>
  \<open>BaseCmdResponse\<close> is what \<open>workspace.communicate\<close> returns, \<open>BaseResponse\<close> what
  the action returns; both carry an output text and a return code.
\<close>

datatype BaseCmdResponse = BaseCmdResponse (cmd_output: string) (cmd_return_code: int)

datatype BaseResponse = BaseResponse (response_output: string) (response_return_code: int)

text \<open>
  The f-string of \<open>EditFile.execute\<close>:
  \<^verbatim>\<open>f"edit {start_line}:{end_line} << end_of_edit\n{replacement_text}\nend_of_edit"\<close>
\<close>

definition newline :: char where
  "newline = CHR 0x0A"

definition full_command :: "EditFileRequest \<Rightarrow> string" where
  "full_command request_data =
     ''edit '' @ str_int (start_line request_data) @ '':'' @ str_int (end_line request_data)
       @ '' << end_of_edit'' @ [newline] @ replacement_text request_data @ [newline]
       @ ''end_of_edit''"

text \<open>
  Modelled from the spec: \<open>process_output\<close> lives in
  \<open>composio.local_tools.local_workspace.commons.utils\<close>, which is not among the sources.
  The spec gives its policy: the return code is passed through unchanged, and the output is
  returned unchanged unless it is empty, in which case a sentinel string may be substituted
  (an implementation choice; the spec describes the source as a simple passthrough). The
  choice is the first argument: \<open>None\<close> is the plain passthrough, \<open>Some s\<close> substitutes
  \<open>s\<close> for an empty output.
\<close>

definition process_output :: "string option \<Rightarrow> string \<Rightarrow> int \<Rightarrow> string \<times> int" where
  "process_output sentinel out rc =
     (case sentinel of
        None \<Rightarrow> (out, rc)
      | Some s \<Rightarrow> (if out = [] then (s, rc) else (out, rc)))"

text \<open>
  Modelled from the spec: the decorator \<open>history_recorder\<close> lives in
  \<open>composio.local_tools.local_workspace.commons.history_processor\<close>, which is not among
  the sources. The spec: it captures the request payload and the resulting response and
  appends them as a step record to the in-memory log before the response is returned to
  the caller. A call that raises has no response to record and the error propagates.
\<close>

definition history_recorder ::
  "('req \<Rightarrow> 'w \<Rightarrow> (error + 'resp) \<times> 'w) \<Rightarrow>
   'req \<Rightarrow> ('req \<times> 'resp) list \<times> 'w \<Rightarrow> (error + 'resp) \<times> ('req \<times> 'resp) list \<times> 'w" where
  "history_recorder f request_data s =
     (case s of (history, w) \<Rightarrow>
        (case f request_data w of
           (Inl e, w') \<Rightarrow> (Inl e, history, w')
         | (Inr resp, w') \<Rightarrow> (Inr resp, history @ [(request_data, resp)], w')))"

text \<open>
  The workspace is an external collaborator: \<open>_setup\<close> (of \<open>BaseAction\<close>) binds it and
  \<open>communicate\<close> runs a command in it. Both are parameters here, acting on a workspace
  state \<open>'w\<close>; either may raise.
\<close>

record 'w workspace_ops =
  action_setup :: "EditFileRequest \<Rightarrow> 'w \<Rightarrow> (error + unit) \<times> 'w"
  communicate :: "string \<Rightarrow> 'w \<Rightarrow> (error + BaseCmdResponse) \<times> 'w"

definition execute_body ::
  "string option \<Rightarrow> 'w workspace_ops \<Rightarrow> EditFileRequest \<Rightarrow> 'w \<Rightarrow> (error + BaseResponse) \<times> 'w" where
  "execute_body sentinel ops request_data w =
     (case action_setup ops request_data w of
        (Inl e, w1) \<Rightarrow> (Inl e, w1)
      | (Inr _, w1) \<Rightarrow>
          (case communicate ops (full_command request_data) w1 of
             (Inl e, w2) \<Rightarrow> (Inl e, w2)
           | (Inr workspace_response, w2) \<Rightarrow>
               (case process_output sentinel (cmd_output workspace_response)
                       (cmd_return_code workspace_response) of
                  (out, rc) \<Rightarrow> (Inr (BaseResponse out rc), w2))))"

definition execute ::
  "string option \<Rightarrow> 'w workspace_ops \<Rightarrow> EditFileRequest \<Rightarrow>
   (EditFileRequest \<times> BaseResponse) list \<times> 'w \<Rightarrow>
   (error + BaseResponse) \<times> (EditFileRequest \<times> BaseResponse) list \<times> 'w" where
  "execute sentinel ops = history_recorder (execute_body sentinel ops)"

section \<open>Effects: errors, state and external calls\<close>

text \<open>
  A Python method is a function from a state to a result and the state it leaves: the
  result is \<open>Inr\<close> a value when the method returns and \<open>Inl\<close> the exception when it
  raises. The state is kept in both cases, so that what a failed call has already done
  stays visible.
\<close>

type_synonym ('s, 'a) action = "'s \<Rightarrow> (error + 'a) \<times> 's"

definition ok :: "'a \<Rightarrow> ('s, 'a) action" where
  "ok x s = (Inr x, s)"

definition raise :: "error \<Rightarrow> ('s, 'a) action" where
  "raise e s = (Inl e, s)"

definition and_then :: "('s, 'a) action \<Rightarrow> ('a \<Rightarrow> ('s, 'b) action) \<Rightarrow> ('s, 'b) action" where
  "and_then m f s = (case m s of (Inl e, s') \<Rightarrow> (Inl e, s') | (Inr x, s') \<Rightarrow> f x s')"

subsection \<open>Python objects that pass through the step callback and the log\<close>

datatype pyobj =
    PyNone
  | PyStr string
  | PyList "pyobj list"
  | PyTuple "pyobj list"
  | PyDict "(string \<times> pyobj) list"
  | AgentAction string
  | AgentFinish pyobj

text \<open>
  \<open>AgentAction j\<close> is a \<open>langchain_core.agents.AgentAction\<close> whose \<open>json()\<close> returns
  \<open>j\<close>; \<open>AgentFinish rv\<close> is a \<open>langchain_core.agents.AgentFinish\<close> with
  \<open>return_values\<close> \<open>rv\<close>.

  \<open>x[0]\<close>: the first element of a sequence. An empty sequence raises IndexError, a
  dictionary (keyed by strings here) has no key 0, and the other objects are not
  subscriptable.
\<close>

fun subscript0 :: "pyobj \<Rightarrow> error + pyobj" where
  "subscript0 (PyList []) = Inl IndexError"
| "subscript0 (PyList (x # xs)) = Inr x"
| "subscript0 (PyTuple []) = Inl IndexError"
| "subscript0 (PyTuple (x # xs)) = Inr x"
| "subscript0 (PyStr []) = Inl IndexError"
| "subscript0 (PyStr (c # cs)) = Inr (PyStr [c])"
| "subscript0 (PyDict kvs) = Inl (KeyError ''0'')"
| "subscript0 PyNone = Inl TypeError"
| "subscript0 (AgentAction j) = Inl TypeError"
| "subscript0 (AgentFinish rv) = Inl TypeError"

text \<open>\<open>x[1] if len(x) > 1 else None\<close>, evaluated only on a list or tuple.\<close>

fun second_or_none :: "pyobj \<Rightarrow> pyobj" where
  "second_or_none (PyList xs) = (if length xs > 1 then xs ! 1 else PyNone)"
| "second_or_none (PyTuple xs) = (if length xs > 1 then xs ! 1 else PyNone)"
| "second_or_none x = PyNone"

subsection \<open>The external collaborators\<close>

datatype App = LOCALWORKSPACE | CMDMANAGERTOOL | HISTORYKEEPER | SUBMITPATCHTOOL

datatype Action = LOCALWORKSPACE_CREATEWORKSPACEACTION | CMDMANAGERTOOL_GITHUBCLONECMD

datatype Entity = Entity string

datatype llm_client =
    ChatOpenAI (model: string) (api_key: "string option") (llm_callbacks: "string list option")
  | AzureChatOpenAI (azure_endpoint: "string option") (api_key: "string option")
      (model: string) (model_version: string) (api_version: string)
      (llm_callbacks: "string list option")

text \<open>The only step callback the code installs is the bound method \<open>self.add_in_logs\<close>.\<close>

datatype callback = add_in_logs_callback

text \<open>
  The keyword arguments of \<open>Agent(...)\<close>, \<open>Task(...)\<close> and \<open>Crew(...)\<close> of the agent
  framework. An argument the call does not pass is \<open>None\<close>.
\<close>

record Agent =
  role :: string
  goal :: string
  backstory :: string
  verbose :: bool
  tools :: "string list"
  llm :: llm_client
  memory :: bool
  cache :: "bool option"
  step_callback :: callback
  allow_delegation :: "bool option"
  callbacks :: "string list option"

datatype Task =
  Task (description: string) (agent: Agent) (task_context: "Task list option")
    (expected_output: string)

record Crew =
  agents :: "Agent list"
  tasks :: "Task list"
  crew_memory :: bool

record datetime =
  year :: nat
  month :: nat
  day :: nat
  hour :: nat
  minute :: nat
  second :: nat

text \<open>A path is kept as the directory and the name joined to it by \<open>/\<close>.\<close>

type_synonym path = "string \<times> string"

text \<open>
  Every call that leaves the program: constructors and methods of the toolset, the
  Composio client, the LLM clients and the agent framework, and the file operations.
\<close>

datatype ext_call =
    ComposioToolSet_new
  | ToolSet_get_tools "App list"
  | Composio_new
  | Client_get_entity string
  | LLM_new llm_client
  | Entity_execute Entity Action "(string \<times> string) list"
  | Agent_new Agent
  | Task_new Task
  | Crew_new Crew
  | Crew_kickoff Crew
  | File_open path string string
  | File_write path string

text \<open>
  What the collaborators do is a parameter of the model: which calls raise, and what the
  others return. \<open>kickoff_steps\<close> are the step outputs the crew engine hands to the step
  callback of the crew's agents while it runs; \<open>format_result\<close> is \<open>str.format\<close> with
  keyword arguments, \<open>json_dumps\<close> is \<open>json.dumps\<close> on the dictionary of logs.
\<close>

record externals =
  raises :: "ext_call \<Rightarrow> error option"
  now :: datetime
  get_tools_result :: "App list \<Rightarrow> string list"
  execute_result :: "Entity \<Rightarrow> Action \<Rightarrow> (string \<times> string) list \<Rightarrow> (string \<times> string) list"
  format_result :: "string \<Rightarrow> (string \<times> pyobj) list \<Rightarrow> error + string"
  kickoff_steps :: "Crew \<Rightarrow> pyobj list"
  json_dumps :: "(string option \<times> pyobj list) list \<Rightarrow> error + string"

datatype log_msg =
    workspace_is_created string
  | git_clone_response "(string \<times> string) list"
  | type_of_step_output pyobj
  | type_is_not_list pyobj

text \<open>
  The world outside the objects of the program: \<open>os.environ\<close>, the external calls made
  so far in call order, the files written (encoding and text), and what the module's
  logger was given.
\<close>

record world =
  environ :: "string \<rightharpoonup> string"
  trace :: "ext_call list"
  files :: "path \<rightharpoonup> string \<times> string"
  logged :: "log_msg list"

text \<open>
  An external call is entered (it joins the trace) and then either raises or returns.
\<close>

definition enter :: "ext_call \<Rightarrow> (world, unit) action" where
  "enter c w = (Inr (), w\<lparr>trace := trace w @ [c]\<rparr>)"

definition outcome :: "externals \<Rightarrow> ext_call \<Rightarrow> ('s, unit) action" where
  "outcome E c = (case raises E c of Some e \<Rightarrow> raise e | None \<Rightarrow> ok ())"

definition external :: "externals \<Rightarrow> ext_call \<Rightarrow> (world, unit) action" where
  "external E c = and_then (enter c) (\<lambda>_. outcome E c)"

definition logger_info :: "log_msg \<Rightarrow> (world, unit) action" where
  "logger_info m w = (Inr (), w\<lparr>logged := logged w @ [m]\<rparr>)"

definition lift_result :: "error + 'a \<Rightarrow> ('s, 'a) action" where
  "lift_result r s = (r, s)"

section \<open>The coder agent (swe.py)\<close>

subsection \<open>Configuration\<close>

text \<open>
  The names imported from \<open>composio_coders.constants\<close>; the module is not among the
  sources, so their values are parameters.
\<close>

record constants =
  KEY_API_KEY :: string
  KEY_AZURE_ENDPOINT :: string
  KEY_MODEL_ENV :: string
  MODEL_ENV_AZURE :: string
  MODEL_ENV_OPENAI :: string

definition LOGS_DIR_NAME_PREFIX :: string where
  "LOGS_DIR_NAME_PREFIX = ''coder_agent_logs''"

definition AGENT_LOGS_JSON_PATH :: string where
  "AGENT_LOGS_JSON_PATH = ''agent_logs.json''"

text \<open>
  Modelled from the spec: \<open>IssueConfig\<close> is declared in \<open>composio_coders.config_store\<close>,
  which is not among the sources. The spec gives its fields: repo\_name, issue\_id,
  base\_commit\_id and issue\_desc. The issue identifier may be missing (\<open>None\<close>).
\<close>

record IssueConfig =
  repo_name :: string
  issue_id :: "string option"
  base_commit_id :: string
  issue_desc :: string

record CoderAgentArgs =
  agent_role :: string
  agent_goal :: string
  task_expected_output :: string
  agent_backstory_tmpl :: string
  issue_description_tmpl :: string
  issue_config :: IssueConfig
  model_env_config :: "string \<rightharpoonup> string"
  agent_logs_dir :: string
  is_benchmark :: bool

text \<open>
  The attributes of a \<open>CoderAgent\<close>. \<open>agent_logs\<close> is a dictionary whose values are
  all the one list object \<open>current_logs\<close> (the only value \<open>save_history\<close> ever stores, and
  \<open>current_logs\<close> is only appended to, never rebound), so the dictionary is kept as its
  keys in insertion order and read through \<open>agent_logs\<close> below. An attribute whose name
  is also a field of the arguments or of the issue configuration carries the prefix
  \<open>self_\<close>.
\<close>

record CoderAgent =
  args :: CoderAgentArgs
  model_env :: "string \<rightharpoonup> string"
  self_issue_config :: IssueConfig
  self_repo_name :: string
  composio_toolset :: "string list"
  entity :: Entity
  composio_entity :: Entity
  self_agent_role :: string
  self_agent_goal :: string
  self_expected_output :: string
  self_agent_backstory_tmpl :: string
  self_issue_description_tmpl :: string
  self_agent_logs_dir :: string
  task_output_logs :: path
  agent_logs_keys :: "string option list"
  current_logs :: "pyobj list"
  self_is_benchmark :: bool

definition agent_logs :: "CoderAgent \<Rightarrow> (string option \<times> pyobj list) list" where
  "agent_logs self = map (\<lambda>k. (k, current_logs self)) (agent_logs_keys self)"

text \<open>Python's truth value of an optional string: \<open>None\<close> and \<open>""\<close> are false.\<close>

fun truthy :: "string option \<Rightarrow> bool" where
  "truthy None = False"
| "truthy (Some s) = (s \<noteq> [])"

subsection \<open>\<open>strftime("%m_%d_%Y_%H_%M_%S")\<close>\<close>

text \<open>
  Every field is a zero-padded decimal number: two digits, and four for the year (as the
  Python documentation gives \<open>%Y\<close>; the years \<open>datetime.now()\<close> returns have four).
\<close>

definition zero_pad :: "nat \<Rightarrow> nat \<Rightarrow> string" where
  "zero_pad width n = replicate (width - length (str_nat n)) CHR ''0'' @ str_nat n"

definition strftime :: "datetime \<Rightarrow> string" where
  "strftime t =
     zero_pad 2 (month t) @ ''_'' @ zero_pad 2 (day t) @ ''_'' @ zero_pad 4 (year t) @ ''_''
       @ zero_pad 2 (hour t) @ ''_'' @ zero_pad 2 (minute t) @ ''_'' @ zero_pad 2 (second t)"

subsection \<open>\<open>CoderAgent.__init__\<close> and \<open>get_composio_entity\<close>\<close>

definition get_composio_entity :: "externals \<Rightarrow> (world, Entity) action" where
  "get_composio_entity E =
     and_then (external E Composio_new) (\<lambda>_.
     and_then (external E (Client_get_entity ''SWE-Agent-Client'')) (\<lambda>_.
     ok (Entity ''SWE-Agent-Client'')))"

definition init :: "externals \<Rightarrow> CoderAgentArgs \<Rightarrow> (world, CoderAgent) action" where
  "init E a =
     (if \<not> truthy (issue_id (issue_config a))
      then raise (ValueError ''no git-issue configuration is found'')
      else
        and_then (external E ComposioToolSet_new) (\<lambda>_.
        and_then (external E
           (ToolSet_get_tools [LOCALWORKSPACE, CMDMANAGERTOOL, HISTORYKEEPER, SUBMITPATCHTOOL])) (\<lambda>_.
        and_then (external E Composio_new) (\<lambda>_.
        and_then (external E (Client_get_entity ''swe-agent'')) (\<lambda>_.
        and_then (get_composio_entity E) (\<lambda>client_entity.
        ok \<lparr> args = a,
             model_env = model_env_config a,
             self_issue_config = issue_config a,
             self_repo_name = repo_name (issue_config a),
             composio_toolset = get_tools_result E
               [LOCALWORKSPACE, CMDMANAGERTOOL, HISTORYKEEPER, SUBMITPATCHTOOL],
             entity = Entity ''swe-agent'',
             composio_entity = client_entity,
             self_agent_role = agent_role a,
             self_agent_goal = agent_goal a,
             self_expected_output = task_expected_output a,
             self_agent_backstory_tmpl = agent_backstory_tmpl a,
             self_issue_description_tmpl = issue_description_tmpl a,
             self_agent_logs_dir = agent_logs_dir a,
             task_output_logs = (agent_logs_dir a, AGENT_LOGS_JSON_PATH @ strftime (now E)),
             agent_logs_keys = [],
             current_logs = [],
             self_is_benchmark = is_benchmark a \<rparr>))))))"

subsection \<open>\<open>CoderAgent.get_llm\<close>\<close>

text \<open>
  The configuration dictionary \<open>model_env\<close> maps strings to strings. The message of the
  final ValueError is kept without the rendering of the dictionary that follows it in the
  source.
\<close>

text \<open>\<open>d[k]\<close> on a dictionary: a missing key raises KeyError.\<close>

definition dict_item :: "(string \<rightharpoonup> string) \<Rightarrow> string \<Rightarrow> ('s, string) action" where
  "dict_item d k = (case d k of None \<Rightarrow> raise (KeyError k) | Some v \<Rightarrow> ok v)"

definition set_environ :: "string \<Rightarrow> string \<Rightarrow> (world, unit) action" where
  "set_environ k v w = (Inr (), w\<lparr>environ := (environ w)(k \<mapsto> v)\<rparr>)"

definition get_environ :: "string \<Rightarrow> (world, string option) action" where
  "get_environ k w = (Inr (environ w k), w)"

definition new_llm :: "externals \<Rightarrow> llm_client \<Rightarrow> (world, llm_client) action" where
  "new_llm E client = and_then (external E (LLM_new client)) (\<lambda>_. ok client)"

definition get_llm ::
  "constants \<Rightarrow> externals \<Rightarrow> CoderAgent \<Rightarrow> string list option \<Rightarrow> (world, llm_client) action" where
  "get_llm c E self cbs =
     (let model_env_value = model_env self (KEY_MODEL_ENV c) in
      if model_env_value = Some (MODEL_ENV_OPENAI c) then
        and_then (get_environ ''OPANAI_API_KEY'') (\<lambda>openai_key.
        new_llm E (ChatOpenAI ''gpt-4-turbo'' openai_key cbs))
      else if model_env_value = Some (MODEL_ENV_AZURE c) then
        (let azure_endpoint_value = model_env self (KEY_AZURE_ENDPOINT c);
             azure_key = model_env self (KEY_API_KEY c) in
         and_then (dict_item (model_env self) (KEY_AZURE_ENDPOINT c)) (\<lambda>v1.
         and_then (set_environ ''AZURE_OPENAI_ENDPOINT'' v1) (\<lambda>_.
         and_then (dict_item (model_env self) (KEY_API_KEY c)) (\<lambda>v2.
         and_then (set_environ ''AZURE_OPENAI_API_KEY'' v2) (\<lambda>_.
         new_llm E (AzureChatOpenAI azure_endpoint_value azure_key ''test'' ''1106-Preview''
           ''2024-02-01'' cbs))))))
      else raise (ValueError ''Invalid model environment''))"

subsection \<open>\<open>CoderAgent.add_in_logs\<close> and \<open>save_history\<close>\<close>

text \<open>
  Methods that change the attributes of \<open>self\<close> act on the agent together with the
  world.
\<close>

definition on_world :: "(world, 'a) action \<Rightarrow> (CoderAgent \<times> world, 'a) action" where
  "on_world m s = (case s of (self, w) \<Rightarrow> (case m w of (r, w') \<Rightarrow> (r, (self, w'))))"

definition get_self :: "(CoderAgent \<times> world, CoderAgent) action" where
  "get_self s = (Inr (fst s), s)"

definition append_log :: "pyobj \<Rightarrow> (CoderAgent \<times> world, unit) action" where
  "append_log entry s =
     (case s of (self, w) \<Rightarrow> (Inr (), (self\<lparr>current_logs := current_logs self @ [entry]\<rparr>, w)))"

definition add_in_logs :: "pyobj \<Rightarrow> (CoderAgent \<times> world, unit) action" where
  "add_in_logs step_output =
     and_then
       (case step_output of
          AgentFinish return_values \<Rightarrow>
            append_log (PyDict [(''agent_action'', PyStr ''agent_finish''),
                                (''agent_output'', return_values)])
        | _ \<Rightarrow> ok ())
       (\<lambda>_.
          case step_output of
            PyList (agent_action_with_tool_out # rest) \<Rightarrow>
              and_then (lift_result (subscript0 agent_action_with_tool_out)) (\<lambda>first.
                case first of
                  AgentAction agent_action_json \<Rightarrow>
                    append_log (PyDict [(''agent_action'', PyStr agent_action_json),
                                        (''tool_output'', second_or_none agent_action_with_tool_out)])
                | _ \<Rightarrow> on_world (logger_info (type_of_step_output first)))
          | _ \<Rightarrow> on_world (logger_info (type_is_not_list step_output)))"

text \<open>
  \<open>self.agent_logs[instance_id] = self.current_logs\<close>: a new key goes last, a key
  already there keeps its place.
\<close>

definition bind_logs :: "string option \<Rightarrow> (CoderAgent \<times> world, unit) action" where
  "bind_logs instance_id s =
     (case s of (self, w) \<Rightarrow>
        (Inr (),
         (self\<lparr>agent_logs_keys :=
             (if instance_id \<in> set (agent_logs_keys self) then agent_logs_keys self
              else agent_logs_keys self @ [instance_id])\<rparr>, w)))"

text \<open>
  \<open>open(path, "w", encoding=...)\<close> creates or empties the file; \<open>f.write(text)\<close> gives it
  its content.
\<close>

definition file_open :: "externals \<Rightarrow> path \<Rightarrow> string \<Rightarrow> string \<Rightarrow> (world, unit) action" where
  "file_open E p mode encoding =
     and_then (external E (File_open p mode encoding)) (\<lambda>_.
       (\<lambda>w. (Inr (), w\<lparr>files := (files w)(p \<mapsto> (encoding, []))\<rparr>)))"

definition file_write :: "externals \<Rightarrow> path \<Rightarrow> string \<Rightarrow> string \<Rightarrow> (world, unit) action" where
  "file_write E p encoding text =
     and_then (external E (File_write p text)) (\<lambda>_.
       (\<lambda>w. (Inr (), w\<lparr>files := (files w)(p \<mapsto> (encoding, text))\<rparr>)))"

definition save_history :: "externals \<Rightarrow> string option \<Rightarrow> (CoderAgent \<times> world, unit) action" where
  "save_history E instance_id =
     and_then (bind_logs instance_id) (\<lambda>_.
     and_then get_self (\<lambda>self.
     and_then (on_world (file_open E (task_output_logs self) ''w'' ''utf-8'')) (\<lambda>_.
     and_then (lift_result (json_dumps E (agent_logs self))) (\<lambda>text.
     on_world (file_write E (task_output_logs self) ''utf-8'' text)))))"

subsection \<open>\<open>CoderAgent.run\<close>\<close>

text \<open>
  \<open>s.split("/")[-1]\<close> and \<open>s.strip()\<close>. A character stands for its code point (below
  256); the white space \<open>strip\<close> removes there is the ASCII white space, U+0085 and
  U+00A0.
\<close>

definition last_segment :: "string \<Rightarrow> string" where
  "last_segment s = rev (takeWhile (\<lambda>c. c \<noteq> CHR ''/'') (rev s))"

definition is_space :: "char \<Rightarrow> bool" where
  "is_space c = (of_char c \<in> {9, 10, 11, 12, 13, 28, 29, 30, 31, 32, 133, 160 :: nat})"

definition strip :: "string \<Rightarrow> string" where
  "strip s = rev (dropWhile is_space (rev (dropWhile is_space s)))"

definition py_opt_str :: "string option \<Rightarrow> pyobj" where
  "py_opt_str v = (case v of None \<Rightarrow> PyNone | Some s \<Rightarrow> PyStr s)"

definition getattr :: "(string \<times> string) list \<Rightarrow> string \<Rightarrow> ('s, string) action" where
  "getattr obj name = (case map_of obj name of None \<Rightarrow> raise (AttributeError name) | Some v \<Rightarrow> ok v)"

definition entity_execute ::
  "externals \<Rightarrow> Entity \<Rightarrow> Action \<Rightarrow> (string \<times> string) list \<Rightarrow> (world, (string \<times> string) list) action" where
  "entity_execute E ent act params =
     and_then (external E (Entity_execute ent act params)) (\<lambda>_. ok (execute_result E ent act params))"

definition new_agent :: "externals \<Rightarrow> Agent \<Rightarrow> (world, Agent) action" where
  "new_agent E a = and_then (external E (Agent_new a)) (\<lambda>_. ok a)"

definition new_task :: "externals \<Rightarrow> Task \<Rightarrow> (world, Task) action" where
  "new_task E t = and_then (external E (Task_new t)) (\<lambda>_. ok t)"

definition new_crew :: "externals \<Rightarrow> Crew \<Rightarrow> (world, Crew) action" where
  "new_crew E c = and_then (external E (Crew_new c)) (\<lambda>_. ok c)"

text \<open>
  \<open>crew.kickoff()\<close>: the engine is entered, hands its step outputs one after the other to
  the step callback (every agent this code builds has \<open>self.add_in_logs\<close>), and then
  returns or raises. An exception of the callback leaves \<open>kickoff\<close> as it is.
\<close>

primrec step_callbacks :: "pyobj list \<Rightarrow> (CoderAgent \<times> world, unit) action" where
  "step_callbacks [] = ok ()"
| "step_callbacks (x # xs) = and_then (add_in_logs x) (\<lambda>_. step_callbacks xs)"

definition kickoff :: "externals \<Rightarrow> Crew \<Rightarrow> (CoderAgent \<times> world, unit) action" where
  "kickoff E crew =
     and_then (on_world (enter (Crew_kickoff crew))) (\<lambda>_.
     and_then (step_callbacks (kickoff_steps E crew)) (\<lambda>_.
     outcome E (Crew_kickoff crew)))"

definition reviewer_backstory :: string where
  "reviewer_backstory =
     ''An AI Agent tries to solve an issue and submits a patch to the repo. ''
     @ ''You can assume the AI agent operates as a junior developer and has limited knowledge of the codebase.''
     @ ''It's your job to review the patch and make sure it fixes the issue.''
     @ ''The patch might be incomplete. In that case point out the missing parts and ask the AI agent to add them.''
     @ ''The patch might have some compilation issues/typo. Point out those and ask the AI agent to fix them.''
     @ ''The patch might have some logical issues. Point out those and ask the AI agent to fix them.''
     @ ''Once the patch is ready, approve it and ask the AI agent to submit it.''
     @ ''It is fine to have multiple iterations of the review. Keep iterating until the patch is ready to be submitted.''
     @ ''The are the best reviewer. You think carefully and step by step take action.''"

text \<open>
  The arguments of the calls \<open>run\<close> makes, one definition per call, named after the
  local variable the result is bound to (or the call, where there is none).
\<close>

definition create_workspace_call :: "CoderAgent \<Rightarrow> ext_call" where
  "create_workspace_call self = Entity_execute (entity self) LOCALWORKSPACE_CREATEWORKSPACEACTION []"

definition git_clone_params :: "CoderAgent \<Rightarrow> string \<Rightarrow> (string \<times> string) list" where
  "git_clone_params self workspace_id =
     [(''workspace_id'', workspace_id),
      (''repo_name'', repo_name (self_issue_config self)),
      (''branch_name'', base_commit_id (self_issue_config self))]"

definition issue_format_kwargs :: "CoderAgent \<Rightarrow> (string \<times> pyobj) list" where
  "issue_format_kwargs self =
     [(''issue'', PyStr (issue_desc (self_issue_config self))),
      (''issue_id'', py_opt_str (issue_id (self_issue_config self))),
      (''repo_name_dir'', PyStr (''/'' @ strip (last_segment (self_repo_name self))))]"

definition backstory_format_kwargs :: "CoderAgent \<Rightarrow> string \<Rightarrow> (string \<times> pyobj) list" where
  "backstory_format_kwargs self workspace_id =
     [(''workspace_id'', PyStr workspace_id),
      (''repo_name'', PyStr (self_repo_name self)),
      (''repo_name_dir'', PyStr (''/'' @ strip (last_segment (self_repo_name self)))),
      (''base_commit'', PyStr (base_commit_id (self_issue_config self)))]"

definition swe_agent_kwargs ::
  "CoderAgent \<Rightarrow> llm_client \<Rightarrow> string \<Rightarrow> string list option \<Rightarrow> Agent" where
  "swe_agent_kwargs self llm_value backstory_added_instruction cbs =
     \<lparr> role = self_agent_role self,
       goal = self_agent_goal self,
       backstory = backstory_added_instruction,
       verbose = True,
       tools = composio_toolset self,
       llm = llm_value,
       memory = True,
       cache = Some False,
       step_callback = add_in_logs_callback,
       allow_delegation = None,
       callbacks = cbs \<rparr>"

definition coding_task_kwargs :: "CoderAgent \<Rightarrow> string \<Rightarrow> Agent \<Rightarrow> Task" where
  "coding_task_kwargs self issue_added_instruction swe_agent =
     Task issue_added_instruction swe_agent None (self_expected_output self)"

definition reviewer_agent_kwargs :: "CoderAgent \<Rightarrow> llm_client \<Rightarrow> string list option \<Rightarrow> Agent" where
  "reviewer_agent_kwargs self llm_value cbs =
     \<lparr> role = ''You are the best reviewer. You think carefully and step by step take action.'',
       goal = ''Review the patch and make sure it fixes the issue.'',
       backstory = reviewer_backstory,
       verbose = True,
       tools = composio_toolset self,
       llm = llm_value,
       memory = True,
       cache = None,
       step_callback = add_in_logs_callback,
       allow_delegation = Some True,
       callbacks = cbs \<rparr>"

definition review_task_kwargs :: "Agent \<Rightarrow> Task \<Rightarrow> Task" where
  "review_task_kwargs reviewer_agent coding_task =
     Task ''Review the patch and make sure it fixes the issue.'' reviewer_agent
       (Some [coding_task]) ''The patch is ready to be submitted to the repo.''"

definition crew_kwargs :: "Agent \<Rightarrow> Task \<Rightarrow> Crew" where
  "crew_kwargs swe_agent coding_task =
     \<lparr> agents = [swe_agent], tasks = [coding_task], crew_memory = True \<rparr>"

definition run :: "constants \<Rightarrow> externals \<Rightarrow> (CoderAgent \<times> world, unit) action" where
  "run c E =
     and_then get_self (\<lambda>self.
     and_then (on_world (get_llm c E self None)) (\<lambda>llm_value.
     let cbs = None in
     and_then (on_world (entity_execute E (entity self) LOCALWORKSPACE_CREATEWORKSPACEACTION [])) (\<lambda>workspace_create_resp.
     and_then (getattr workspace_create_resp ''workspace_id'') (\<lambda>workspace_id.
     and_then (on_world (logger_info (workspace_is_created workspace_id))) (\<lambda>_.
     and_then (on_world (entity_execute E (entity self) CMDMANAGERTOOL_GITHUBCLONECMD
                 (git_clone_params self workspace_id))) (\<lambda>git_clone_resp.
     and_then (lift_result (format_result E (self_issue_description_tmpl self)
                 (issue_format_kwargs self))) (\<lambda>issue_added_instruction.
     and_then (lift_result (format_result E (self_agent_backstory_tmpl self)
                 (backstory_format_kwargs self workspace_id))) (\<lambda>backstory_added_instruction.
     and_then (on_world (logger_info (git_clone_response git_clone_resp))) (\<lambda>_.
     and_then (on_world (new_agent E
                 (swe_agent_kwargs self llm_value backstory_added_instruction cbs))) (\<lambda>swe_agent.
     and_then (on_world (new_task E
                 (coding_task_kwargs self issue_added_instruction swe_agent))) (\<lambda>coding_task.
     and_then (on_world (new_agent E (reviewer_agent_kwargs self llm_value cbs))) (\<lambda>reviewer_agent.
     and_then (on_world (new_task E (review_task_kwargs reviewer_agent coding_task))) (\<lambda>review_task.
     and_then (on_world (new_crew E (crew_kwargs swe_agent coding_task))) (\<lambda>crew.
     and_then (kickoff E crew) (\<lambda>_.
     save_history E (issue_id (self_issue_config self)))))))))))))))))"

section \<open>Notions the properties are stated with\<close>

text \<open>The external calls made between a world and a later one, in call order.\<close>

definition new_calls :: "world \<Rightarrow> world \<Rightarrow> ext_call list" where
  "new_calls w w' = drop (length (trace w)) (trace w')"

text \<open>Calls to the workspace service, file operations, and calls into the agent framework.\<close>

fun is_entity_execute :: "ext_call \<Rightarrow> bool" where
  "is_entity_execute (Entity_execute ent act params) = True"
| "is_entity_execute c = False"

fun is_file_call :: "ext_call \<Rightarrow> bool" where
  "is_file_call (File_open p mode encoding) = True"
| "is_file_call (File_write p text) = True"
| "is_file_call c = False"

fun is_framework_call :: "ext_call \<Rightarrow> bool" where
  "is_framework_call (Agent_new a) = True"
| "is_framework_call (Task_new t) = True"
| "is_framework_call (Crew_new c) = True"
| "is_framework_call (Crew_kickoff c) = True"
| "is_framework_call c = False"

definition git_clone_call :: "CoderAgent \<Rightarrow> string \<Rightarrow> ext_call" where
  "git_clone_call self workspace_id =
     Entity_execute (entity self) CMDMANAGERTOOL_GITHUBCLONECMD (git_clone_params self workspace_id)"

text \<open>
  The workspace identifier read off the response to the create call (its \<open>workspace_id\<close>
  attribute; the term is only used where the attribute is there).
\<close>

definition created_workspace_id :: "externals \<Rightarrow> CoderAgent \<Rightarrow> string" where
  "created_workspace_id E self =
     the (map_of (execute_result E (entity self) LOCALWORKSPACE_CREATEWORKSPACEACTION []) ''workspace_id'')"

text \<open>
  The entry \<open>add_in_logs\<close> appends for a step output, read off its two appending branches;
  \<open>None\<close> for a step output that reaches neither (lemma \<open>add_in_logs_apply\<close> relates the
  two).
\<close>

fun log_entry_of :: "pyobj \<Rightarrow> pyobj option" where
  "log_entry_of (AgentFinish return_values) =
     Some (PyDict [(''agent_action'', PyStr ''agent_finish''), (''agent_output'', return_values)])"
| "log_entry_of (PyList (item # rest)) =
     (case subscript0 item of
        Inr (AgentAction j) \<Rightarrow>
          Some (PyDict [(''agent_action'', PyStr j), (''tool_output'', second_or_none item)])
      | _ \<Rightarrow> None)"
| "log_entry_of x = None"

text \<open>
  The exception \<open>add_in_logs\<close> raises on a step output, if any (a non-empty list whose
  first element cannot be subscripted with 0), and what it gives to the logger.
\<close>

fun step_error :: "pyobj \<Rightarrow> error option" where
  "step_error (PyList (item # rest)) = (case subscript0 item of Inl e \<Rightarrow> Some e | Inr v \<Rightarrow> None)"
| "step_error x = None"

fun step_msgs :: "pyobj \<Rightarrow> log_msg list" where
  "step_msgs (PyList (item # rest)) =
     (case subscript0 item of
        Inl e \<Rightarrow> []
      | Inr (AgentAction j) \<Rightarrow> []
      | Inr first \<Rightarrow> [type_of_step_output first])"
| "step_msgs x = [type_is_not_list x]"

text \<open>
  A sequence of step callbacks stops at the first step output that raises: the steps
  handled before it, and the exception it stops with.
\<close>

definition handled :: "pyobj list \<Rightarrow> pyobj list" where
  "handled steps = takeWhile (\<lambda>x. step_error x = None) steps"

definition callbacks_error :: "pyobj list \<Rightarrow> error option" where
  "callbacks_error steps =
     (case dropWhile (\<lambda>x. step_error x = None) steps of [] \<Rightarrow> None | x # xs \<Rightarrow> step_error x)"

text \<open>What \<open>get_llm\<close> adds to the trace.\<close>

definition llm_calls ::
  "constants \<Rightarrow> externals \<Rightarrow> CoderAgent \<Rightarrow> string list option \<Rightarrow> world \<Rightarrow> ext_call list" where
  "llm_calls c E self cbs w = drop (length (trace w)) (trace (snd (get_llm c E self cbs w)))"

section \<open>A concrete configuration\<close>

text \<open>
  The configuration of the module's \<open>__main__\<close> block, with collaborators that never
  raise: the workspace service answers the create call with a workspace identifier, the
  templates are returned as they are, and the crew engine produces one tool step and then
  finishes.
\<close>

definition main_constants :: constants where
  "main_constants =
     \<lparr> KEY_API_KEY = ''api_key'', KEY_AZURE_ENDPOINT = ''azure_endpoint'',
       KEY_MODEL_ENV = ''model_env'', MODEL_ENV_AZURE = ''azure'', MODEL_ENV_OPENAI = ''openai'' \<rparr>"

definition main_issue_config :: IssueConfig where
  "main_issue_config =
     \<lparr> repo_name = ''ComposioHQ/composio'', issue_id = Some ''123'',
       base_commit_id = ''shubhra/linter'', issue_desc = ''fix the linter errors'' \<rparr>"

definition main_args :: CoderAgentArgs where
  "main_args =
     \<lparr> agent_role = ''role'', agent_goal = ''goal'', task_expected_output = ''a patch'',
       agent_backstory_tmpl = ''backstory'', issue_description_tmpl = ''issue'',
       issue_config = main_issue_config,
       model_env_config =
         [''api_key'' \<mapsto> ''test-api-key'', ''azure_endpoint'' \<mapsto> ''azure-end-point'',
          ''model_env'' \<mapsto> ''openai''],
       agent_logs_dir = ''logs'', is_benchmark = False \<rparr>"

definition quiet_externals :: externals where
  "quiet_externals =
     \<lparr> raises = (\<lambda>_. None),
       now = \<lparr> year = 2024, month = 5, day = 17, hour = 9, minute = 3, second = 7 \<rparr>,
       get_tools_result = (\<lambda>_. [''edit_file'']),
       execute_result =
         (\<lambda>ent act params.
            case act of
              LOCALWORKSPACE_CREATEWORKSPACEACTION \<Rightarrow> [(''workspace_id'', ''ws-1'')]
            | CMDMANAGERTOOL_GITHUBCLONECMD \<Rightarrow> [(''output'', ''cloned'')]),
       format_result = (\<lambda>tmpl kwargs. Inr tmpl),
       kickoff_steps =
         (\<lambda>_. [PyList [PyTuple [AgentAction ''edit'', PyStr ''done'']], AgentFinish (PyStr ''patch'')]),
       json_dumps = (\<lambda>_. Inr ''{}'') \<rparr>"

text \<open>The same collaborators, except that the repository clone raises.\<close>

definition clone_fails_externals :: externals where
  "clone_fails_externals =
     quiet_externals
       \<lparr> raises :=
           (\<lambda>c. case c of
                  Entity_execute ent CMDMANAGERTOOL_GITHUBCLONECMD params \<Rightarrow>
                    Some (ExternalError ''clone failed'')
                | _ \<Rightarrow> None) \<rparr>"

definition empty_world :: world where
  "empty_world = \<lparr> environ = Map.empty, trace = [], files = Map.empty, logged = [] \<rparr>"

definition main_agent :: CoderAgent where
  "main_agent =
     \<lparr> args = main_args,
       model_env = model_env_config main_args,
       self_issue_config = main_issue_config,
       self_repo_name = ''ComposioHQ/composio'',
       composio_toolset = [''edit_file''],
       entity = Entity ''swe-agent'',
       composio_entity = Entity ''SWE-Agent-Client'',
       self_agent_role = ''role'',
       self_agent_goal = ''goal'',
       self_expected_output = ''a patch'',
       self_agent_backstory_tmpl = ''backstory'',
       self_issue_description_tmpl = ''issue'',
       self_agent_logs_dir = ''logs'',
       task_output_logs = (''logs'', ''agent_logs.json05_17_2024_09_03_07''),
       agent_logs_keys = [],
       current_logs = [],
       self_is_benchmark = False \<rparr>"

text \<open>What \<open>run\<close> builds and leaves behind on this configuration.\<close>

definition main_llm :: llm_client where
  "main_llm = ChatOpenAI ''gpt-4-turbo'' None None"

definition main_swe_agent :: Agent where
  "main_swe_agent = swe_agent_kwargs main_agent main_llm ''backstory'' None"

definition main_coding_task :: Task where
  "main_coding_task = coding_task_kwargs main_agent ''issue'' main_swe_agent"

definition main_reviewer_agent :: Agent where
  "main_reviewer_agent = reviewer_agent_kwargs main_agent main_llm None"

definition main_review_task :: Task where
  "main_review_task = review_task_kwargs main_reviewer_agent main_coding_task"

definition main_crew :: Crew where
  "main_crew = crew_kwargs main_swe_agent main_coding_task"

definition main_final_agent :: CoderAgent where
  "main_final_agent =
     main_agent
       \<lparr> current_logs :=
           [PyDict [(''agent_action'', PyStr ''edit''), (''tool_output'', PyStr ''done'')],
            PyDict [(''agent_action'', PyStr ''agent_finish''), (''agent_output'', PyStr ''patch'')]],
         agent_logs_keys := [Some ''123''] \<rparr>"

definition main_final_world :: world where
  "main_final_world =
     empty_world
       \<lparr> trace :=
           [LLM_new main_llm, create_workspace_call main_agent, git_clone_call main_agent ''ws-1'',
            Agent_new main_swe_agent, Task_new main_coding_task, Agent_new main_reviewer_agent,
            Task_new main_review_task, Crew_new main_crew, Crew_kickoff main_crew,
            File_open (''logs'', ''agent_logs.json05_17_2024_09_03_07'') ''w'' ''utf-8'',
            File_write (''logs'', ''agent_logs.json05_17_2024_09_03_07'') ''{}''],
         files := [(''logs'', ''agent_logs.json05_17_2024_09_03_07'') \<mapsto> (''utf-8'', ''{}'')],
         logged :=
           [workspace_is_created ''ws-1'', git_clone_response [(''output'', ''cloned'')],
            type_is_not_list (AgentFinish (PyStr ''patch''))] \<rparr>"

definition clone_fails_world :: world where
  "clone_fails_world =
     empty_world
       \<lparr> trace := [LLM_new main_llm, create_workspace_call main_agent, git_clone_call main_agent ''ws-1''],
         logged := [workspace_is_created ''ws-1''] \<rparr>"

definition constructed_world :: world where
  "constructed_world =
     empty_world
       \<lparr> trace :=
           [ComposioToolSet_new,
            ToolSet_get_tools [LOCALWORKSPACE, CMDMANAGERTOOL, HISTORYKEEPER, SUBMITPATCHTOOL],
            Composio_new, Client_get_entity ''swe-agent'',
            Composio_new, Client_get_entity ''SWE-Agent-Client''] \<rparr>"

text \<open>
  Variants: an agent configured for Azure with and without its credentials, one with an
  unrecognized model environment, a world whose environment holds the OpenAI key under the
  name the code reads, and arguments whose issue identifier is empty.
\<close>

definition azure_bare_agent :: CoderAgent where
  "azure_bare_agent = main_agent\<lparr>model_env := [''model_env'' \<mapsto> ''azure'']\<rparr>"

definition azure_agent :: CoderAgent where
  "azure_agent = main_agent\<lparr>model_env := (model_env main_agent)(''model_env'' \<mapsto> ''azure'')\<rparr>"

definition unknown_env_agent :: CoderAgent where
  "unknown_env_agent = main_agent\<lparr>model_env := (model_env main_agent)(''model_env'' \<mapsto> ''gemini'')\<rparr>"

definition keyed_world :: world where
  "keyed_world = empty_world\<lparr>environ := [''OPANAI_API_KEY'' \<mapsto> ''sk-from-environ'']\<rparr>"

definition no_issue_args :: CoderAgentArgs where
  "no_issue_args = main_args\<lparr>issue_config := main_issue_config\<lparr>issue_id := Some []\<rparr>\<rparr>"



section \<open>Properties of the EditFile action\<close>

lemma digit_val_digit_char: "d < 10 \<Longrightarrow> digit_val (digit_char d) = d"
  by (simp add: digit_val_def digit_char_def)

lemma nat_of_str_snoc: "nat_of_str (s @ [c]) = 10 * nat_of_str s + digit_val c"
  by (simp add: nat_of_str_def)

lemma nat_of_str_str_nat: "nat_of_str (str_nat n) = n"
proof (induction n rule: str_nat.induct)
  case (1 n)
  show ?case
  proof (cases "n < 10")
    case True
    then show ?thesis
      by (simp add: str_nat.simps [of n] nat_of_str_def digit_val_digit_char)
  next
    case False
    with 1 show ?thesis
      by (simp add: str_nat.simps [of n] nat_of_str_snoc digit_val_digit_char)
  qed
qed

lemma str_nat_not_Nil: "str_nat n \<noteq> []"
  by (subst str_nat.simps) simp

lemma digit_char_not_minus: "d < 10 \<Longrightarrow> digit_char d \<noteq> CHR ''-''"
proof
  assume d: "d < 10" and eq: "digit_char d = CHR ''-''"
  from eq have "(of_char (digit_char d) :: nat) = of_char (CHR ''-'')"
    by simp
  with d show False
    by (simp add: digit_char_def)
qed

lemma hd_str_nat_not_minus: "hd (str_nat n) \<noteq> CHR ''-''"
proof (induction n rule: str_nat.induct)
  case (1 n)
  show ?case
  proof (cases "n < 10")
    case True
    then show ?thesis
      by (simp add: str_nat.simps [of n] digit_char_not_minus)
  next
    case False
    with 1 show ?thesis
      by (simp add: str_nat.simps [of n] str_nat_not_Nil)
  qed
qed

lemma int_of_str_str_int: "int_of_str (str_int i) = i"
proof (cases "i < 0")
  case True
  then show ?thesis
    by (simp add: int_of_str_def str_int_def nat_of_str_str_nat)
next
  case False
  obtain c cs where s: "str_nat (nat i) = c # cs"
    using str_nat_not_Nil [of "nat i"] by (cases "str_nat (nat i)") auto
  have "c \<noteq> CHR ''-''"
    using hd_str_nat_not_minus [of "nat i"] s by simp
  moreover have "nat_of_str (c # cs) = nat i"
    using nat_of_str_str_nat [of "nat i"] s by simp
  ultimately show ?thesis
    using False s by (simp add: int_of_str_def str_int_def)
qed

text \<open>
  C3. For every EditFile request, whatever its \<open>start_line\<close>, \<open>end_line\<close> and
  \<open>replacement_text\<close>, the command string that \<open>EditFile.execute\<close> builds contains the
  decimal renderings of \<open>start_line\<close> and \<open>end_line\<close> (each reads back as the number it
  came from) and contains \<open>replacement_text\<close> character for character; the command ends
  with the payload on lines of its own between the opening marker \<open>end_of_edit\<close> of the
  here-document and the same marker closing it.
\<close>

theorem full_command_embeds_request:
  "sublist (str_int (start_line request_data)) (full_command request_data) \<and>
   int_of_str (str_int (start_line request_data)) = start_line request_data \<and>
   sublist (str_int (end_line request_data)) (full_command request_data) \<and>
   int_of_str (str_int (end_line request_data)) = end_line request_data \<and>
   sublist (replacement_text request_data) (full_command request_data) \<and>
   full_command request_data =
     (''edit '' @ str_int (start_line request_data) @ '':'' @ str_int (end_line request_data)
        @ '' << '')
     @ ''end_of_edit'' @ [newline] @ replacement_text request_data @ [newline] @ ''end_of_edit''"
proof -
  let ?a = "str_int (start_line request_data)"
  let ?b = "str_int (end_line request_data)"
  let ?t = "replacement_text request_data"
  have "full_command request_data = ''edit '' @ ?a @ ('':'' @ ?b @ '' << end_of_edit'' @ [newline] @ ?t @ [newline] @ ''end_of_edit'')"
    by (simp add: full_command_def)
  then have a: "sublist ?a (full_command request_data)"
    unfolding sublist_def by blast
  have "full_command request_data = (''edit '' @ ?a @ '':'') @ ?b @ ('' << end_of_edit'' @ [newline] @ ?t @ [newline] @ ''end_of_edit'')"
    by (simp add: full_command_def)
  then have b: "sublist ?b (full_command request_data)"
    unfolding sublist_def by blast
  have "full_command request_data = (''edit '' @ ?a @ '':'' @ ?b @ '' << end_of_edit'' @ [newline]) @ ?t @ ([newline] @ ''end_of_edit'')"
    by (simp add: full_command_def)
  then have t: "sublist ?t (full_command request_data)"
    unfolding sublist_def by blast
  have shape: "full_command request_data =
      (''edit '' @ ?a @ '':'' @ ?b @ '' << '') @ ''end_of_edit'' @ [newline] @ ?t @ [newline] @ ''end_of_edit''"
    by (simp add: full_command_def)
  from a b t shape show ?thesis
    by (simp add: int_of_str_str_int)
qed




section \<open>How the steps of the coder agent act\<close>

lemmas action_defs =
  ok_def raise_def and_then_def lift_result_def enter_def outcome_def external_def
  logger_info_def

lemma external_apply:
  "external E c w =
     (case raises E c of Some e \<Rightarrow> Inl e | None \<Rightarrow> Inr (), w\<lparr>trace := trace w @ [c]\<rparr>)"
  by (simp add: action_defs split: option.splits)

subsection \<open>The step callback\<close>

lemma add_in_logs_apply:
  "add_in_logs x (a, w) =
     (case step_error x of Some e \<Rightarrow> Inl e | None \<Rightarrow> Inr (),
      (a\<lparr>current_logs := current_logs a @ (case log_entry_of x of None \<Rightarrow> [] | Some e \<Rightarrow> [e])\<rparr>,
       w\<lparr>logged := logged w @ step_msgs x\<rparr>))"
  by (cases x rule: log_entry_of.cases)
     (auto simp: add_in_logs_def append_log_def on_world_def action_defs
           split: sum.splits pyobj.splits prod.splits)

lemma step_callbacks_apply:
  "step_callbacks steps (a, w) =
     (case callbacks_error steps of Some e \<Rightarrow> Inl e | None \<Rightarrow> Inr (),
      (a\<lparr>current_logs := current_logs a @ List.map_filter log_entry_of (handled steps)\<rparr>,
       w\<lparr>logged := logged w @ concat (map step_msgs (handled steps))\<rparr>))"
proof (induction steps arbitrary: a w)
  case Nil
  show ?case
    by (simp add: ok_def handled_def callbacks_error_def map_filter_simps)
next
  case (Cons x xs)
  show ?case
  proof (cases "step_error x")
    case None
    then show ?thesis
      by (simp add: and_then_def add_in_logs_apply Cons.IH handled_def callbacks_error_def
            map_filter_simps split: option.splits)
  next
    case (Some e)
    then have "log_entry_of x = None"
      by (cases x rule: log_entry_of.cases) (auto split: sum.splits)
    moreover from Some have "step_msgs x = []"
      by (cases x rule: log_entry_of.cases) (auto split: sum.splits)
    ultimately show ?thesis
      using Some
      by (simp add: and_then_def add_in_logs_apply handled_def callbacks_error_def map_filter_simps)
  qed
qed

lemma callbacks_error_None: "(callbacks_error steps = None) = (\<forall>x\<in>set steps. step_error x = None)"
proof (induction steps)
  case Nil
  show ?case by (simp add: callbacks_error_def)
next
  case (Cons x xs)
  then show ?case
    by (cases "step_error x") (auto simp: callbacks_error_def)
qed

lemma handled_all: "callbacks_error steps = None \<Longrightarrow> handled steps = steps"
  by (simp add: callbacks_error_None handled_def)

lemma log_entry_of_no_error: "log_entry_of x = Some e \<Longrightarrow> step_error x = None"
  by (cases x rule: log_entry_of.cases) (auto split: sum.splits pyobj.splits)

subsection \<open>\<open>get_llm\<close>\<close>

lemma get_llm_openai:
  assumes "model_env self (KEY_MODEL_ENV c) = Some (MODEL_ENV_OPENAI c)"
  shows "get_llm c E self cbs w =
           (case raises E (LLM_new (ChatOpenAI ''gpt-4-turbo'' (environ w ''OPANAI_API_KEY'') cbs)) of
              Some e \<Rightarrow> Inl e
            | None \<Rightarrow> Inr (ChatOpenAI ''gpt-4-turbo'' (environ w ''OPANAI_API_KEY'') cbs),
            w\<lparr>trace := trace w @ [LLM_new (ChatOpenAI ''gpt-4-turbo'' (environ w ''OPANAI_API_KEY'') cbs)]\<rparr>)"
  using assms
  by (simp add: get_llm_def new_llm_def get_environ_def action_defs split: option.splits)

lemma get_llm_effect:
  "files (snd (get_llm c E self cbs w)) = files w \<and>
   logged (snd (get_llm c E self cbs w)) = logged w \<and>
   trace (snd (get_llm c E self cbs w)) = trace w @ llm_calls c E self cbs w \<and>
   (case fst (get_llm c E self cbs w) of
      Inr cl \<Rightarrow> llm_calls c E self cbs w = [LLM_new cl]
    | Inl e \<Rightarrow> llm_calls c E self cbs w = [] \<or> (\<exists>cl. llm_calls c E self cbs w = [LLM_new cl]))"
  unfolding llm_calls_def
  by (auto simp: get_llm_def new_llm_def get_environ_def set_environ_def dict_item_def
        action_defs Let_def split: if_splits option.splits sum.splits prod.splits)

lemma get_llm_files [simp]: "files (snd (get_llm c E self cbs w)) = files w"
  using get_llm_effect by blast

lemma get_llm_logged [simp]: "logged (snd (get_llm c E self cbs w)) = logged w"
  using get_llm_effect by blast

lemma get_llm_trace [simp]:
  "trace (snd (get_llm c E self cbs w)) = trace w @ llm_calls c E self cbs w"
  using get_llm_effect by blast

lemma llm_calls_Inr:
  "fst (get_llm c E self cbs w) = Inr cl \<Longrightarrow> llm_calls c E self cbs w = [LLM_new cl]"
  using get_llm_effect [of c E self cbs w] by simp

lemma llm_calls_only_llm: "x \<in> set (llm_calls c E self cbs w) \<Longrightarrow> \<exists>cl. x = LLM_new cl"
  using get_llm_effect [of c E self cbs w] by (auto split: sum.splits)

lemma llm_calls_not [simp]:
  "Crew_kickoff crew \<notin> set (llm_calls c E self cbs w)"
  "Agent_new a \<notin> set (llm_calls c E self cbs w)"
  "Task_new t \<notin> set (llm_calls c E self cbs w)"
  "Crew_new crew \<notin> set (llm_calls c E self cbs w)"
  "Entity_execute ent act ps \<notin> set (llm_calls c E self cbs w)"
  "File_open p m enc \<notin> set (llm_calls c E self cbs w)"
  "File_write p txt \<notin> set (llm_calls c E self cbs w)"
  using llm_calls_only_llm [of _ c E self cbs w] by blast+

lemma llm_calls_filter [simp]:
  "filter is_entity_execute (llm_calls c E self cbs w) = []"
  "filter is_file_call (llm_calls c E self cbs w) = []"
  "filter is_framework_call (llm_calls c E self cbs w) = []"
  by (auto simp: filter_empty_conv dest!: llm_calls_only_llm)

lemma llm_calls_no_framework [simp]:
  "(\<exists>x\<in>set (llm_calls c E self cbs w). is_framework_call x) = False"
  by (auto dest!: llm_calls_only_llm)

subsection \<open>\<open>run\<close>, step by step\<close>

lemma and_then_get_self: "and_then get_self f (a, w) = f a (a, w)"
  by (simp add: and_then_def get_self_def)

lemma and_then_entity_execute:
  "and_then (on_world (entity_execute E ent act ps)) f (a, w) =
     (case raises E (Entity_execute ent act ps) of
        Some e \<Rightarrow> (Inl e, (a, w\<lparr>trace := trace w @ [Entity_execute ent act ps]\<rparr>))
      | None \<Rightarrow> f (execute_result E ent act ps) (a, w\<lparr>trace := trace w @ [Entity_execute ent act ps]\<rparr>))"
  by (simp add: and_then_def on_world_def entity_execute_def external_apply ok_def split: option.splits)

lemma and_then_new_agent:
  "and_then (on_world (new_agent E x)) f (a, w) =
     (case raises E (Agent_new x) of
        Some e \<Rightarrow> (Inl e, (a, w\<lparr>trace := trace w @ [Agent_new x]\<rparr>))
      | None \<Rightarrow> f x (a, w\<lparr>trace := trace w @ [Agent_new x]\<rparr>))"
  by (simp add: and_then_def on_world_def new_agent_def external_apply ok_def split: option.splits)

lemma and_then_new_task:
  "and_then (on_world (new_task E x)) f (a, w) =
     (case raises E (Task_new x) of
        Some e \<Rightarrow> (Inl e, (a, w\<lparr>trace := trace w @ [Task_new x]\<rparr>))
      | None \<Rightarrow> f x (a, w\<lparr>trace := trace w @ [Task_new x]\<rparr>))"
  by (simp add: and_then_def on_world_def new_task_def external_apply ok_def split: option.splits)

lemma and_then_new_crew:
  "and_then (on_world (new_crew E x)) f (a, w) =
     (case raises E (Crew_new x) of
        Some e \<Rightarrow> (Inl e, (a, w\<lparr>trace := trace w @ [Crew_new x]\<rparr>))
      | None \<Rightarrow> f x (a, w\<lparr>trace := trace w @ [Crew_new x]\<rparr>))"
  by (simp add: and_then_def on_world_def new_crew_def external_apply ok_def split: option.splits)

lemma and_then_getattr:
  "and_then (getattr obj n) f s =
     (case map_of obj n of None \<Rightarrow> (Inl (AttributeError n), s) | Some v \<Rightarrow> f v s)"
  by (simp add: and_then_def getattr_def ok_def raise_def split: option.splits)

lemma and_then_logger_info:
  "and_then (on_world (logger_info m)) f (a, w) = f () (a, w\<lparr>logged := logged w @ [m]\<rparr>)"
  by (simp add: and_then_def on_world_def logger_info_def)

lemma and_then_lift_result:
  "and_then (lift_result v) f s = (case v of Inl e \<Rightarrow> (Inl e, s) | Inr x \<Rightarrow> f x s)"
  by (simp add: and_then_def lift_result_def split: sum.splits)

lemma and_then_get_llm:
  "and_then (on_world (get_llm c E self cbs)) f (a, w) =
     (case fst (get_llm c E self cbs w) of
        Inl e \<Rightarrow> (Inl e, (a, snd (get_llm c E self cbs w)))
      | Inr cl \<Rightarrow> f cl (a, (snd (get_llm c E self cbs w))\<lparr>trace := trace w @ [LLM_new cl]\<rparr>))"
proof -
  obtain r wl where g: "get_llm c E self cbs w = (r, wl)"
    by (cases "get_llm c E self cbs w")
  show ?thesis
  proof (cases r)
    case (Inl e)
    with g show ?thesis
      by (simp add: and_then_def on_world_def)
  next
    case (Inr cl)
    with g have "fst (get_llm c E self cbs w) = Inr cl" by simp
    from llm_calls_Inr [OF this] get_llm_trace [of c E self cbs w] g
    have "trace wl = trace w @ [LLM_new cl]" by simp
    then have "wl = wl\<lparr>trace := trace w @ [LLM_new cl]\<rparr>" by simp
    with g Inr show ?thesis
      by (simp add: and_then_def on_world_def)
  qed
qed

lemma and_then_kickoff:
  "and_then (kickoff E crew) f (a, w) =
     (let s' = (a\<lparr>current_logs :=
                    current_logs a @ List.map_filter log_entry_of (handled (kickoff_steps E crew))\<rparr>,
                w\<lparr>trace := trace w @ [Crew_kickoff crew],
                  logged := logged w @ concat (map step_msgs (handled (kickoff_steps E crew)))\<rparr>)
      in case callbacks_error (kickoff_steps E crew) of
           Some e \<Rightarrow> (Inl e, s')
         | None \<Rightarrow>
             (case raises E (Crew_kickoff crew) of
                Some e \<Rightarrow> (Inl e, s')
              | None \<Rightarrow> f () s'))"
  by (simp add: kickoff_def and_then_def on_world_def enter_def outcome_def ok_def raise_def
        step_callbacks_apply Let_def split: option.splits)

lemma save_history_apply:
  "save_history E k (a, w) =
     (let a' = a\<lparr>agent_logs_keys :=
                  (if k \<in> set (agent_logs_keys a) then agent_logs_keys a else agent_logs_keys a @ [k])\<rparr>;
          p = task_output_logs a;
          w1 = w\<lparr>trace := trace w @ [File_open p ''w'' ''utf-8'']\<rparr>
      in case raises E (File_open p ''w'' ''utf-8'') of
           Some e \<Rightarrow> (Inl e, (a', w1))
         | None \<Rightarrow>
             (case json_dumps E (agent_logs a') of
                Inl e \<Rightarrow> (Inl e, (a', w1\<lparr>files := (files w)(p \<mapsto> (''utf-8'', []))\<rparr>))
              | Inr text \<Rightarrow>
                  (case raises E (File_write p text) of
                     Some e \<Rightarrow>
                       (Inl e, (a', w1\<lparr>files := (files w)(p \<mapsto> (''utf-8'', [])),
                                        trace := trace w1 @ [File_write p text]\<rparr>))
                   | None \<Rightarrow>
                       (Inr (), (a', w1\<lparr>files := (files w)(p \<mapsto> (''utf-8'', text)),
                                        trace := trace w1 @ [File_write p text]\<rparr>)))))"
  by (simp add: save_history_def and_then_def bind_logs_def get_self_def on_world_def
        file_open_def file_write_def external_apply lift_result_def ok_def Let_def
        split: prod.splits sum.splits option.splits)

lemmas run_steps =
  and_then_get_self and_then_get_llm and_then_entity_execute and_then_getattr
  and_then_logger_info and_then_lift_result and_then_new_agent and_then_new_task
  and_then_new_crew and_then_kickoff save_history_apply


section \<open>Properties of the session log\<close>

lemma map_filter_length: "length (List.map_filter f xs) \<le> length xs"
  by (induction xs) (auto split: option.splits)

lemma map_filter_all_Some:
  "\<forall>x\<in>set xs. f x \<noteq> None \<Longrightarrow> List.map_filter f xs = map (the \<circ> f) xs"
  by (induction xs) (auto split: option.splits)

lemma handled_length: "length (handled steps) \<le> length steps"
  by (simp add: handled_def length_takeWhile_le)

lemma main_callbacks:
  "step_callbacks [PyList [PyTuple [AgentAction ''edit'', PyStr ''done'']], AgentFinish (PyStr ''patch'')]
     (main_agent, empty_world) =
   (Inr (),
    (main_agent\<lparr>current_logs :=
       [PyDict [(''agent_action'', PyStr ''edit''), (''tool_output'', PyStr ''done'')],
        PyDict [(''agent_action'', PyStr ''agent_finish''), (''agent_output'', PyStr ''patch'')]]\<rparr>,
     empty_world\<lparr>logged := [type_is_not_list (AgentFinish (PyStr ''patch''))]\<rparr>))"
  by (subst step_callbacks_apply)
     (simp add: handled_def callbacks_error_def main_agent_def empty_world_def)

text \<open>
  C1 (as amended). Each invocation of the step callback \<open>add_in_logs\<close> appends at most one
  entry to \<open>current_logs\<close>, at its end: one entry for an \<open>AgentFinish\<close> and for a non-empty
  list whose first element starts with an \<open>AgentAction\<close>, none for any other step output
  (which is only given to the logger, or raises). So after a sequence of invocations the
  log is the log before followed, in call order, by the entries of the step outputs handled;
  it has grown by at most the number of invocations, and by exactly that number, with the
  invocations all returning, when every step output is of a recorded kind.
\<close>

theorem step_callbacks_log_in_order:
  assumes "step_callbacks steps (self, w) = (r, (self', w'))"
  shows "current_logs self' = current_logs self @ List.map_filter log_entry_of (handled steps) \<and>
         length (current_logs self') \<le> length (current_logs self) + length steps \<and>
         (r = Inr ()) = (\<forall>x\<in>set steps. step_error x = None) \<and>
         (r = Inr () \<longrightarrow>
            current_logs self' = current_logs self @ List.map_filter log_entry_of steps) \<and>
         ((\<forall>x\<in>set steps. log_entry_of x \<noteq> None) \<longrightarrow>
            r = Inr () \<and>
            current_logs self' = current_logs self @ map (the \<circ> log_entry_of) steps \<and>
            length (current_logs self') = length (current_logs self) + length steps)"
proof -
  from assms have r: "r = (case callbacks_error steps of Some e \<Rightarrow> Inl e | None \<Rightarrow> Inr ())"
    and logs: "current_logs self' = current_logs self @ List.map_filter log_entry_of (handled steps)"
    by (auto simp: step_callbacks_apply)
  have len: "length (current_logs self') \<le> length (current_logs self) + length steps"
    using logs map_filter_length [of log_entry_of "handled steps"] handled_length [of steps]
    by simp
  have ok: "(r = Inr ()) = (\<forall>x\<in>set steps. step_error x = None)"
    using r callbacks_error_None [of steps] by (auto split: option.splits)
  have all: "r = Inr () \<longrightarrow>
      current_logs self' = current_logs self @ List.map_filter log_entry_of steps"
    using r logs by (auto simp: handled_all split: option.splits)
  have recorded: "(\<forall>x\<in>set steps. log_entry_of x \<noteq> None) \<longrightarrow>
            r = Inr () \<and>
            current_logs self' = current_logs self @ map (the \<circ> log_entry_of) steps \<and>
            length (current_logs self') = length (current_logs self) + length steps"
  proof
    assume a: "\<forall>x\<in>set steps. log_entry_of x \<noteq> None"
    then have "\<forall>x\<in>set steps. step_error x = None"
      using log_entry_of_no_error by blast
    with ok have "r = Inr ()" by simp
    with all a show "r = Inr () \<and>
            current_logs self' = current_logs self @ map (the \<circ> log_entry_of) steps \<and>
            length (current_logs self') = length (current_logs self) + length steps"
      by (simp add: map_filter_all_Some)
  qed
  from logs len ok all recorded show ?thesis by blast
qed

theorem step_callbacks_log_in_order_witness:
  "step_callbacks [PyList [PyTuple [AgentAction ''edit'', PyStr ''done'']], AgentFinish (PyStr ''patch'')]
     (main_agent, empty_world) =
   (Inr (),
    (main_agent\<lparr>current_logs :=
       [PyDict [(''agent_action'', PyStr ''edit''), (''tool_output'', PyStr ''done'')],
        PyDict [(''agent_action'', PyStr ''agent_finish''), (''agent_output'', PyStr ''patch'')]]\<rparr>,
     empty_world\<lparr>logged := [type_is_not_list (AgentFinish (PyStr ''patch''))]\<rparr>)) \<and>
   log_entry_of (PyList [PyTuple [AgentAction ''edit'', PyStr ''done'']]) \<noteq> None \<and>
   log_entry_of (AgentFinish (PyStr ''patch'')) \<noteq> None \<and>
   current_logs main_agent = [] \<and>
   length [PyDict [(''agent_action'', PyStr ''edit''), (''tool_output'', PyStr ''done'')],
           PyDict [(''agent_action'', PyStr ''agent_finish''), (''agent_output'', PyStr ''patch'')]] =
     length (current_logs main_agent) +
     length [PyList [PyTuple [AgentAction ''edit'', PyStr ''done'']], AgentFinish (PyStr ''patch'')]"
proof -
  note t = step_callbacks_log_in_order [OF main_callbacks]
  have a: "log_entry_of (PyList [PyTuple [AgentAction ''edit'', PyStr ''done'']]) \<noteq> None"
    "log_entry_of (AgentFinish (PyStr ''patch'')) \<noteq> None"
    by simp_all
  have b: "current_logs main_agent = []"
    by (simp add: main_agent_def)
  have "\<forall>x\<in>set [PyList [PyTuple [AgentAction ''edit'', PyStr ''done'']], AgentFinish (PyStr ''patch'')].
          log_entry_of x \<noteq> None"
    using a by simp
  with t have len:
    "length (current_logs (main_agent\<lparr>current_logs :=
       [PyDict [(''agent_action'', PyStr ''edit''), (''tool_output'', PyStr ''done'')],
        PyDict [(''agent_action'', PyStr ''agent_finish''), (''agent_output'', PyStr ''patch'')]]\<rparr>)) =
     length (current_logs main_agent) +
     length [PyList [PyTuple [AgentAction ''edit'', PyStr ''done'']], AgentFinish (PyStr ''patch'')]"
    by blast
  from a b len show ?thesis
    by (intro conjI main_callbacks) simp_all
qed

text \<open>
  One invocation with an empty list as step output returns normally and leaves the log
  empty: the count of entries is not the count of invocations.
\<close>

theorem step_callbacks_unrecorded_counterexample:
  "step_callbacks [PyList []] (main_agent, empty_world) =
     (Inr (), (main_agent, empty_world\<lparr>logged := [type_is_not_list (PyList [])]\<rparr>)) \<and>
   length [PyList []] = 1 \<and>
   length (current_logs main_agent) = 0"
  by (subst step_callbacks_apply)
     (simp add: handled_def callbacks_error_def main_agent_def empty_world_def)

section \<open>Properties of the construction and of the LLM selection\<close>

lemma get_llm_azure:
  assumes "model_env self (KEY_MODEL_ENV c) = Some (MODEL_ENV_AZURE c)"
      and "MODEL_ENV_AZURE c \<noteq> MODEL_ENV_OPENAI c"
      and "model_env self (KEY_AZURE_ENDPOINT c) = Some ep"
      and "model_env self (KEY_API_KEY c) = Some k"
  shows "get_llm c E self cbs w =
           (case raises E (LLM_new (AzureChatOpenAI (Some ep) (Some k) ''test'' ''1106-Preview'' ''2024-02-01'' cbs)) of
              Some e \<Rightarrow> Inl e
            | None \<Rightarrow> Inr (AzureChatOpenAI (Some ep) (Some k) ''test'' ''1106-Preview'' ''2024-02-01'' cbs),
            w\<lparr>environ := (environ w)(''AZURE_OPENAI_ENDPOINT'' \<mapsto> ep, ''AZURE_OPENAI_API_KEY'' \<mapsto> k),
              trace := trace w @ [LLM_new (AzureChatOpenAI (Some ep) (Some k) ''test'' ''1106-Preview'' ''2024-02-01'' cbs)]\<rparr>)"
  using assms
  by (simp add: get_llm_def new_llm_def set_environ_def dict_item_def action_defs Let_def
        split: option.splits)

lemma get_llm_azure_missing:
  assumes "model_env self (KEY_MODEL_ENV c) = Some (MODEL_ENV_AZURE c)"
      and "MODEL_ENV_AZURE c \<noteq> MODEL_ENV_OPENAI c"
      and "model_env self (KEY_AZURE_ENDPOINT c) = None \<or> model_env self (KEY_API_KEY c) = None"
  shows "trace (snd (get_llm c E self cbs w)) = trace w \<and>
         fst (get_llm c E self cbs w) =
           Inl (KeyError (if model_env self (KEY_AZURE_ENDPOINT c) = None then KEY_AZURE_ENDPOINT c
                          else KEY_API_KEY c))"
  using assms
  by (auto simp: get_llm_def new_llm_def set_environ_def dict_item_def action_defs Let_def
        split: option.splits)

lemmas llm_eval =
  get_llm_def new_llm_def get_environ_def set_environ_def dict_item_def action_defs Let_def
  main_constants_def quiet_externals_def main_agent_def main_args_def empty_world_def

text \<open>
  C4 (as amended). With a model environment that is neither of the two recognized values,
  \<open>get_llm\<close> raises a ValueError and leaves the world as it was: no LLM client is
  constructed. With the OpenAI value it constructs the \<open>ChatOpenAI\<close> client, and returns it
  unless the constructor raises. With the Azure value it constructs the \<open>AzureChatOpenAI\<close>
  client when the configuration holds both the Azure endpoint and the API key; when either
  is missing it raises a KeyError and constructs no client.
\<close>

theorem get_llm_selects_backend:
  "(model_env self (KEY_MODEL_ENV c) \<noteq> Some (MODEL_ENV_OPENAI c) \<and>
    model_env self (KEY_MODEL_ENV c) \<noteq> Some (MODEL_ENV_AZURE c) \<longrightarrow>
      get_llm c E self cbs w = (Inl (ValueError ''Invalid model environment''), w)) \<and>
   (model_env self (KEY_MODEL_ENV c) = Some (MODEL_ENV_OPENAI c) \<longrightarrow>
      (\<exists>client. client = ChatOpenAI ''gpt-4-turbo'' (environ w ''OPANAI_API_KEY'') cbs \<and>
         trace (snd (get_llm c E self cbs w)) = trace w @ [LLM_new client] \<and>
         fst (get_llm c E self cbs w) =
           (case raises E (LLM_new client) of Some e \<Rightarrow> Inl e | None \<Rightarrow> Inr client))) \<and>
   (model_env self (KEY_MODEL_ENV c) = Some (MODEL_ENV_AZURE c) \<and>
    MODEL_ENV_AZURE c \<noteq> MODEL_ENV_OPENAI c \<longrightarrow>
      (\<forall>ep k. model_env self (KEY_AZURE_ENDPOINT c) = Some ep \<and> model_env self (KEY_API_KEY c) = Some k \<longrightarrow>
         (\<exists>client. client = AzureChatOpenAI (Some ep) (Some k) ''test'' ''1106-Preview'' ''2024-02-01'' cbs \<and>
            trace (snd (get_llm c E self cbs w)) = trace w @ [LLM_new client] \<and>
            fst (get_llm c E self cbs w) =
              (case raises E (LLM_new client) of Some e \<Rightarrow> Inl e | None \<Rightarrow> Inr client))) \<and>
      (model_env self (KEY_AZURE_ENDPOINT c) = None \<or> model_env self (KEY_API_KEY c) = None \<longrightarrow>
         trace (snd (get_llm c E self cbs w)) = trace w \<and>
         (\<exists>missing. fst (get_llm c E self cbs w) = Inl (KeyError missing))))"
proof (intro conjI impI allI)
  assume "model_env self (KEY_MODEL_ENV c) \<noteq> Some (MODEL_ENV_OPENAI c) \<and>
    model_env self (KEY_MODEL_ENV c) \<noteq> Some (MODEL_ENV_AZURE c)"
  then show "get_llm c E self cbs w = (Inl (ValueError ''Invalid model environment''), w)"
    by (simp add: get_llm_def raise_def Let_def)
next
  assume "model_env self (KEY_MODEL_ENV c) = Some (MODEL_ENV_OPENAI c)"
  from get_llm_openai [OF this, of E cbs w]
  show "\<exists>client. client = ChatOpenAI ''gpt-4-turbo'' (environ w ''OPANAI_API_KEY'') cbs \<and>
         trace (snd (get_llm c E self cbs w)) = trace w @ [LLM_new client] \<and>
         fst (get_llm c E self cbs w) =
           (case raises E (LLM_new client) of Some e \<Rightarrow> Inl e | None \<Rightarrow> Inr client)"
    by simp
next
  fix ep k
  assume "model_env self (KEY_MODEL_ENV c) = Some (MODEL_ENV_AZURE c) \<and>
    MODEL_ENV_AZURE c \<noteq> MODEL_ENV_OPENAI c"
    and "model_env self (KEY_AZURE_ENDPOINT c) = Some ep \<and> model_env self (KEY_API_KEY c) = Some k"
  then have "get_llm c E self cbs w =
           (case raises E (LLM_new (AzureChatOpenAI (Some ep) (Some k) ''test'' ''1106-Preview'' ''2024-02-01'' cbs)) of
              Some e \<Rightarrow> Inl e
            | None \<Rightarrow> Inr (AzureChatOpenAI (Some ep) (Some k) ''test'' ''1106-Preview'' ''2024-02-01'' cbs),
            w\<lparr>environ := (environ w)(''AZURE_OPENAI_ENDPOINT'' \<mapsto> ep, ''AZURE_OPENAI_API_KEY'' \<mapsto> k),
              trace := trace w @ [LLM_new (AzureChatOpenAI (Some ep) (Some k) ''test'' ''1106-Preview'' ''2024-02-01'' cbs)]\<rparr>)"
    using get_llm_azure by blast
  then show "\<exists>client. client = AzureChatOpenAI (Some ep) (Some k) ''test'' ''1106-Preview'' ''2024-02-01'' cbs \<and>
            trace (snd (get_llm c E self cbs w)) = trace w @ [LLM_new client] \<and>
            fst (get_llm c E self cbs w) =
              (case raises E (LLM_new client) of Some e \<Rightarrow> Inl e | None \<Rightarrow> Inr client)"
    by simp
next
  assume a: "model_env self (KEY_MODEL_ENV c) = Some (MODEL_ENV_AZURE c) \<and>
    MODEL_ENV_AZURE c \<noteq> MODEL_ENV_OPENAI c"
    and b: "model_env self (KEY_AZURE_ENDPOINT c) = None \<or> model_env self (KEY_API_KEY c) = None"
  from a b get_llm_azure_missing [of self c E cbs w]
  show "trace (snd (get_llm c E self cbs w)) = trace w" by blast
next
  assume a: "model_env self (KEY_MODEL_ENV c) = Some (MODEL_ENV_AZURE c) \<and>
    MODEL_ENV_AZURE c \<noteq> MODEL_ENV_OPENAI c"
    and b: "model_env self (KEY_AZURE_ENDPOINT c) = None \<or> model_env self (KEY_API_KEY c) = None"
  from a b get_llm_azure_missing [of self c E cbs w]
  show "\<exists>missing. fst (get_llm c E self cbs w) = Inl (KeyError missing)" by blast
qed


theorem get_llm_selects_backend_witness:
  "model_env unknown_env_agent (KEY_MODEL_ENV main_constants) = Some ''gemini'' \<and>
   get_llm main_constants quiet_externals unknown_env_agent None empty_world =
     (Inl (ValueError ''Invalid model environment''), empty_world) \<and>
   model_env main_agent (KEY_MODEL_ENV main_constants) = Some (MODEL_ENV_OPENAI main_constants) \<and>
   trace (snd (get_llm main_constants quiet_externals main_agent None keyed_world)) =
     trace keyed_world @ [LLM_new (ChatOpenAI ''gpt-4-turbo'' (environ keyed_world ''OPANAI_API_KEY'') None)] \<and>
   model_env azure_agent (KEY_MODEL_ENV main_constants) = Some (MODEL_ENV_AZURE main_constants) \<and>
   MODEL_ENV_AZURE main_constants \<noteq> MODEL_ENV_OPENAI main_constants \<and>
   model_env azure_agent (KEY_AZURE_ENDPOINT main_constants) = Some ''azure-end-point'' \<and>
   model_env azure_agent (KEY_API_KEY main_constants) = Some ''test-api-key'' \<and>
   trace (snd (get_llm main_constants quiet_externals azure_agent None empty_world)) =
     trace empty_world @
       [LLM_new (AzureChatOpenAI (Some ''azure-end-point'') (Some ''test-api-key'') ''test''
          ''1106-Preview'' ''2024-02-01'' None)] \<and>
   model_env azure_bare_agent (KEY_API_KEY main_constants) = None \<and>
   trace (snd (get_llm main_constants quiet_externals azure_bare_agent None empty_world)) =
     trace empty_world"
proof -
  have cfg:
    "model_env unknown_env_agent (KEY_MODEL_ENV main_constants) = Some ''gemini''"
    "model_env main_agent (KEY_MODEL_ENV main_constants) = Some (MODEL_ENV_OPENAI main_constants)"
    "model_env azure_agent (KEY_MODEL_ENV main_constants) = Some (MODEL_ENV_AZURE main_constants)"
    "MODEL_ENV_AZURE main_constants \<noteq> MODEL_ENV_OPENAI main_constants"
    "model_env azure_agent (KEY_AZURE_ENDPOINT main_constants) = Some ''azure-end-point''"
    "model_env azure_agent (KEY_API_KEY main_constants) = Some ''test-api-key''"
    "model_env azure_bare_agent (KEY_MODEL_ENV main_constants) = Some (MODEL_ENV_AZURE main_constants)"
    "model_env azure_bare_agent (KEY_API_KEY main_constants) = None"
    "MODEL_ENV_OPENAI main_constants = ''openai''"
    "MODEL_ENV_AZURE main_constants = ''azure''"
    by (simp_all add: main_constants_def main_agent_def main_args_def unknown_env_agent_def
          azure_agent_def azure_bare_agent_def)
  from get_llm_selects_backend [of unknown_env_agent main_constants quiet_externals None empty_world] cfg
  have a: "get_llm main_constants quiet_externals unknown_env_agent None empty_world =
     (Inl (ValueError ''Invalid model environment''), empty_world)"
    by simp
  from get_llm_selects_backend [of main_agent main_constants quiet_externals None keyed_world] cfg(2)
  have b: "trace (snd (get_llm main_constants quiet_externals main_agent None keyed_world)) =
     trace keyed_world @ [LLM_new (ChatOpenAI ''gpt-4-turbo'' (environ keyed_world ''OPANAI_API_KEY'') None)]"
    by simp
  from get_llm_selects_backend [of azure_agent main_constants quiet_externals None empty_world] cfg(3-6)
  have c: "trace (snd (get_llm main_constants quiet_externals azure_agent None empty_world)) =
     trace empty_world @
       [LLM_new (AzureChatOpenAI (Some ''azure-end-point'') (Some ''test-api-key'') ''test''
          ''1106-Preview'' ''2024-02-01'' None)]"
    by simp
  from get_llm_selects_backend [of azure_bare_agent main_constants quiet_externals None empty_world]
    cfg(4,7,8)
  have d: "trace (snd (get_llm main_constants quiet_externals azure_bare_agent None empty_world)) =
     trace empty_world"
    by simp
  from cfg(1-6,8) a b c d show ?thesis by blast
qed

text \<open>
  With the recognized value \<open>azure\<close> and a configuration that holds neither the endpoint nor
  the API key, \<open>get_llm\<close> raises a KeyError for the endpoint key and constructs no client.
\<close>

theorem get_llm_azure_without_credentials_counterexample:
  "model_env azure_bare_agent (KEY_MODEL_ENV main_constants) = Some (MODEL_ENV_AZURE main_constants) \<and>
   get_llm main_constants quiet_externals azure_bare_agent None empty_world =
     (Inl (KeyError ''azure_endpoint''), empty_world) \<and>
   trace empty_world = []"
  by (simp add: llm_eval azure_bare_agent_def)

text \<open>
  C10. When the model environment selects the OpenAI backend, the API key handed to the
  \<open>ChatOpenAI\<close> constructor is what \<open>os.environ\<close> holds under \<open>OPANAI_API_KEY\<close>, and
  \<open>None\<close> when the variable is absent; \<open>get_llm\<close> itself does not raise then (an error can
  only come from the constructor). The result is the same for every configuration that
  selects OpenAI, whatever API key the configuration holds.
\<close>

theorem get_llm_openai_key_from_environ:
  assumes "model_env self (KEY_MODEL_ENV c) = Some (MODEL_ENV_OPENAI c)"
  shows "(\<exists>client. client = ChatOpenAI ''gpt-4-turbo'' (environ w ''OPANAI_API_KEY'') cbs \<and>
           get_llm c E self cbs w =
             (case raises E (LLM_new client) of Some e \<Rightarrow> Inl e | None \<Rightarrow> Inr client,
              w\<lparr>trace := trace w @ [LLM_new client]\<rparr>)) \<and>
         (environ w ''OPANAI_API_KEY'' = None \<longrightarrow>
            get_llm c E self cbs w =
              (case raises E (LLM_new (ChatOpenAI ''gpt-4-turbo'' None cbs)) of
                 Some e \<Rightarrow> Inl e
               | None \<Rightarrow> Inr (ChatOpenAI ''gpt-4-turbo'' None cbs),
               w\<lparr>trace := trace w @ [LLM_new (ChatOpenAI ''gpt-4-turbo'' None cbs)]\<rparr>)) \<and>
         (\<forall>e. fst (get_llm c E self cbs w) = Inl e \<longrightarrow>
            raises E (LLM_new (ChatOpenAI ''gpt-4-turbo'' (environ w ''OPANAI_API_KEY'') cbs)) = Some e) \<and>
         (\<forall>other. model_env other (KEY_MODEL_ENV c) = Some (MODEL_ENV_OPENAI c) \<longrightarrow>
            get_llm c E other cbs w = get_llm c E self cbs w)"
proof -
  note g = get_llm_openai [OF assms, of E cbs w]
  have "get_llm c E other cbs w = get_llm c E self cbs w"
    if "model_env other (KEY_MODEL_ENV c) = Some (MODEL_ENV_OPENAI c)" for other
    using get_llm_openai [OF that, of E cbs w] g by simp
  with g show ?thesis
    by (auto split: option.splits)
qed

theorem get_llm_openai_key_from_environ_witness:
  "model_env main_agent (KEY_MODEL_ENV main_constants) = Some (MODEL_ENV_OPENAI main_constants) \<and>
   model_env main_agent (KEY_API_KEY main_constants) = Some ''test-api-key'' \<and>
   environ keyed_world ''OPANAI_API_KEY'' = Some ''sk-from-environ'' \<and>
   get_llm main_constants quiet_externals main_agent None keyed_world =
     (Inr (ChatOpenAI ''gpt-4-turbo'' (Some ''sk-from-environ'') None),
      keyed_world\<lparr>trace := trace keyed_world @
         [LLM_new (ChatOpenAI ''gpt-4-turbo'' (Some ''sk-from-environ'') None)]\<rparr>) \<and>
   environ empty_world ''OPANAI_API_KEY'' = None \<and>
   get_llm main_constants quiet_externals main_agent None empty_world =
     (Inr (ChatOpenAI ''gpt-4-turbo'' None None),
      empty_world\<lparr>trace := trace empty_world @ [LLM_new (ChatOpenAI ''gpt-4-turbo'' None None)]\<rparr>)"
proof -
  have cfg:
    "model_env main_agent (KEY_MODEL_ENV main_constants) = Some (MODEL_ENV_OPENAI main_constants)"
    "model_env main_agent (KEY_API_KEY main_constants) = Some ''test-api-key''"
    "environ keyed_world ''OPANAI_API_KEY'' = Some ''sk-from-environ''"
    "environ empty_world ''OPANAI_API_KEY'' = None"
    "raises quiet_externals = (\<lambda>_. None)"
    by (simp_all add: main_constants_def main_agent_def main_args_def keyed_world_def
          empty_world_def quiet_externals_def)
  from get_llm_openai_key_from_environ [OF cfg(1), of keyed_world None quiet_externals] cfg(3,5)
  have a: "get_llm main_constants quiet_externals main_agent None keyed_world =
     (Inr (ChatOpenAI ''gpt-4-turbo'' (Some ''sk-from-environ'') None),
      keyed_world\<lparr>trace := trace keyed_world @
         [LLM_new (ChatOpenAI ''gpt-4-turbo'' (Some ''sk-from-environ'') None)]\<rparr>)"
    by simp
  from get_llm_openai_key_from_environ [OF cfg(1), of empty_world None quiet_externals] cfg(4,5)
  have b: "get_llm main_constants quiet_externals main_agent None empty_world =
     (Inr (ChatOpenAI ''gpt-4-turbo'' None None),
      empty_world\<lparr>trace := trace empty_world @ [LLM_new (ChatOpenAI ''gpt-4-turbo'' None None)]\<rparr>)"
    by simp
  from cfg(1-4) a b show ?thesis by blast
qed

text \<open>
  C5. Constructing a \<open>CoderAgent\<close> whose issue identifier is missing or empty raises a
  ValueError and leaves the world as it was: no external call (toolset, Composio client,
  entity lookup) has been made.
\<close>

theorem init_without_issue_id:
  assumes "issue_id (issue_config a) = None \<or> issue_id (issue_config a) = Some []"
  shows "init E a w = (Inl (ValueError ''no git-issue configuration is found''), w) \<and>
         new_calls w (snd (init E a w)) = []"
  using assms by (auto simp: init_def raise_def new_calls_def)

theorem init_without_issue_id_witness:
  "issue_id (issue_config no_issue_args) = Some [] \<and>
   init quiet_externals no_issue_args empty_world =
     (Inl (ValueError ''no git-issue configuration is found''), empty_world) \<and>
   new_calls empty_world (snd (init quiet_externals no_issue_args empty_world)) = []"
proof -
  have a: "issue_id (issue_config no_issue_args) = Some []"
    by (simp add: no_issue_args_def)
  then have "issue_id (issue_config no_issue_args) = None \<or> issue_id (issue_config no_issue_args) = Some []"
    by simp
  from init_without_issue_id [OF this, of quiet_externals empty_world] a show ?thesis
    by blast
qed

section \<open>Properties of the coder agent's run\<close>

lemma run_workspace_calls:
  "case run c E (self, w) of (r, (self', w')) \<Rightarrow>
     filter is_entity_execute (new_calls w w') = [] \<or>
     filter is_entity_execute (new_calls w w') = [create_workspace_call self] \<or>
     filter is_entity_execute (new_calls w w') =
       [create_workspace_call self, git_clone_call self (created_workspace_id E self)]"
  unfolding run_def Let_def
  by (simp add: run_steps new_calls_def Let_def create_workspace_call_def git_clone_call_def
        created_workspace_id_def split: sum.split option.split)


lemma run_reaches_framework:
  "case run c E (self, w) of (r, (self', w')) \<Rightarrow>
     r = Inr () \<or> (\<exists>x\<in>set (new_calls w w'). is_framework_call x) \<longrightarrow>
       take 3 (new_calls w w') =
         [LLM_new (projr (fst (get_llm c E self None w))), create_workspace_call self,
          git_clone_call self (created_workspace_id E self)] \<and>
       3 < length (new_calls w w') \<and>
       map_of (execute_result E (entity self) LOCALWORKSPACE_CREATEWORKSPACEACTION []) ''workspace_id'' =
         Some (created_workspace_id E self) \<and>
       is_framework_call (new_calls w w' ! 3) \<and>
       filter is_entity_execute (drop 3 (new_calls w w')) = []"
  unfolding run_def Let_def
  by (simp add: run_steps new_calls_def Let_def create_workspace_call_def git_clone_call_def
        created_workspace_id_def split: sum.split option.split)


text \<open>
  C2. Whenever a call to the workspace service (the workspace creation or the repository
  clone, the two \<open>entity.execute\<close> calls of \<open>run\<close>) or the crew's \<open>kickoff\<close> is made
  during a run and raises, the run ends with an error: the error of the call itself for the
  two workspace calls, and for \<open>kickoff\<close> too unless a step callback had raised inside it
  first. The failed call is the last external call of the run, no file is opened or
  written, the files are as they were, and \<open>save_history\<close> has not touched the
  dictionary of logs.
\<close>

theorem run_aborts_unsaved:
  assumes "run c E (self, w) = (r, (self', w'))"
      and "x \<in> set (new_calls w w')"
      and "is_entity_execute x \<or> (\<exists>crew. x = Crew_kickoff crew)"
      and "raises E x = Some e"
  shows "(\<exists>err. r = Inl err) \<and>
         (is_entity_execute x \<longrightarrow> r = Inl e) \<and>
         (\<forall>crew. x = Crew_kickoff crew \<longrightarrow> callbacks_error (kickoff_steps E crew) = None \<longrightarrow> r = Inl e) \<and>
         last (trace w') = x \<and>
         files w' = files w \<and>
         filter is_file_call (new_calls w w') = [] \<and>
         agent_logs_keys self' = agent_logs_keys self"
proof -
  have "case run c E (self, w) of (r, (self', w')) \<Rightarrow>
         x \<in> set (new_calls w w') \<longrightarrow>
         (is_entity_execute x \<or> (\<exists>crew. x = Crew_kickoff crew)) \<longrightarrow>
         raises E x = Some e \<longrightarrow>
         (\<exists>err. r = Inl err) \<and>
         (is_entity_execute x \<longrightarrow> r = Inl e) \<and>
         (\<forall>crew. x = Crew_kickoff crew \<longrightarrow> callbacks_error (kickoff_steps E crew) = None \<longrightarrow> r = Inl e) \<and>
         last (trace w') = x \<and>
         files w' = files w \<and>
         filter is_file_call (new_calls w w') = [] \<and>
         agent_logs_keys self' = agent_logs_keys self"
    unfolding run_def Let_def
    apply (simp add: run_steps new_calls_def Let_def
          split: sum.split option.split)
    apply (auto dest!: llm_calls_only_llm)
    done
  with assms show ?thesis by simp
qed

text \<open>
  C9. Every run that returns has handed a crew to \<open>kickoff\<close>. Whenever a run reaches
  \<open>kickoff\<close>, the calls into the agent framework were, in this order: the coder agent, the
  coding task, the reviewer agent, the review task, the crew, and \<open>kickoff\<close> on that crew.
  So the reviewer agent and the review task have been constructed, but the crew holds
  exactly one agent, the coder agent, and exactly one task, the coding task; the reviewer
  agent and the review task are not in it.
\<close>

theorem run_crew_excludes_reviewer:
  assumes "run c E (self, w) = (r, (self', w'))"
  shows "(r = Inr () \<longrightarrow> (\<exists>crew. Crew_kickoff crew \<in> set (new_calls w w'))) \<and>
         (\<forall>crew. Crew_kickoff crew \<in> set (new_calls w w') \<longrightarrow>
            (\<exists>llm_value backstory_text issue_text.
               let swe_agent = swe_agent_kwargs self llm_value backstory_text None;
                   coding_task = coding_task_kwargs self issue_text swe_agent;
                   reviewer_agent = reviewer_agent_kwargs self llm_value None;
                   review_task = review_task_kwargs reviewer_agent coding_task
               in filter is_framework_call (new_calls w w') =
                    [Agent_new swe_agent, Task_new coding_task, Agent_new reviewer_agent,
                     Task_new review_task, Crew_new crew, Crew_kickoff crew] \<and>
                  agents crew = [swe_agent] \<and> tasks crew = [coding_task] \<and>
                  reviewer_agent \<notin> set (agents crew) \<and> review_task \<notin> set (tasks crew)))"
proof -
  have "case run c E (self, w) of (r, (self', w')) \<Rightarrow>
         (r = Inr () \<longrightarrow> (\<exists>crew. Crew_kickoff crew \<in> set (new_calls w w'))) \<and>
         (\<forall>crew. Crew_kickoff crew \<in> set (new_calls w w') \<longrightarrow>
            (\<exists>llm_value backstory_text issue_text.
               let swe_agent = swe_agent_kwargs self llm_value backstory_text None;
                   coding_task = coding_task_kwargs self issue_text swe_agent;
                   reviewer_agent = reviewer_agent_kwargs self llm_value None;
                   review_task = review_task_kwargs reviewer_agent coding_task
               in filter is_framework_call (new_calls w w') =
                    [Agent_new swe_agent, Task_new coding_task, Agent_new reviewer_agent,
                     Task_new review_task, Crew_new crew, Crew_kickoff crew] \<and>
                  agents crew = [swe_agent] \<and> tasks crew = [coding_task] \<and>
                  reviewer_agent \<notin> set (agents crew) \<and> review_task \<notin> set (tasks crew)))"
    unfolding run_def Let_def
    apply (simp add: run_steps new_calls_def Let_def
          split: sum.split option.split)
    apply (auto simp: crew_kwargs_def swe_agent_kwargs_def reviewer_agent_kwargs_def
         coding_task_kwargs_def review_task_kwargs_def)
    done
  with assms show ?thesis by simp
qed


text \<open>
  C7. In every run the calls to the workspace service are at most the workspace creation
  followed by the repository clone, in this order and once each, and the clone's
  \<open>branch_name\<close> parameter is the configured base commit identifier. A run that returns,
  or that makes any call into the agent framework (constructing an agent, a task or the
  crew, or starting the crew), has made exactly these calls first: the LLM client, one
  workspace creation, one clone in the workspace the creation returned; the next call is
  into the agent framework, and no workspace call follows.
\<close>

theorem run_create_clone_then_construct:
  assumes "run c E (self, w) = (r, (self', w'))"
  shows "(\<forall>workspace_id. map_of (git_clone_params self workspace_id) ''branch_name'' =
            Some (base_commit_id (self_issue_config self))) \<and>
         (\<exists>wid. filter is_entity_execute (new_calls w w') = [] \<or>
                filter is_entity_execute (new_calls w w') = [create_workspace_call self] \<or>
                filter is_entity_execute (new_calls w w') =
                  [create_workspace_call self, git_clone_call self wid]) \<and>
         (r = Inr () \<or> (\<exists>x \<in> set (new_calls w w'). is_framework_call x) \<longrightarrow>
            (\<exists>llm_value wid rest.
               new_calls w w' =
                 [LLM_new llm_value, create_workspace_call self, git_clone_call self wid] @ rest \<and>
               map_of (execute_result E (entity self) LOCALWORKSPACE_CREATEWORKSPACEACTION [])
                 ''workspace_id'' = Some wid \<and>
               rest \<noteq> [] \<and> is_framework_call (hd rest) \<and>
               filter is_entity_execute rest = []))"
proof (intro conjI impI allI)
  fix workspace_id
  show "map_of (git_clone_params self workspace_id) ''branch_name'' =
          Some (base_commit_id (self_issue_config self))"
    by (simp add: git_clone_params_def)
next
  from run_workspace_calls [where c = c and E = E and self = self and w = w] assms
  show "\<exists>wid. filter is_entity_execute (new_calls w w') = [] \<or>
              filter is_entity_execute (new_calls w w') = [create_workspace_call self] \<or>
              filter is_entity_execute (new_calls w w') =
                [create_workspace_call self, git_clone_call self wid]"
    by auto
next
  let ?xs = "new_calls w w'"
  assume "r = Inr () \<or> (\<exists>x \<in> set ?xs. is_framework_call x)"
  with run_reaches_framework [where c = c and E = E and self = self and w = w] assms
  have first: "take 3 ?xs =
         [LLM_new (projr (fst (get_llm c E self None w))), create_workspace_call self,
          git_clone_call self (created_workspace_id E self)]"
    and len: "3 < length ?xs"
    and wid: "map_of (execute_result E (entity self) LOCALWORKSPACE_CREATEWORKSPACEACTION [])
                ''workspace_id'' = Some (created_workspace_id E self)"
    and next_call: "is_framework_call (?xs ! 3)"
    and no_more: "filter is_entity_execute (drop 3 ?xs) = []"
    by auto
  have "?xs = take 3 ?xs @ drop 3 ?xs" by simp
  with first have split: "?xs =
      [LLM_new (projr (fst (get_llm c E self None w))), create_workspace_call self,
       git_clone_call self (created_workspace_id E self)] @ drop 3 ?xs"
    by simp
  from len have nonempty: "drop 3 ?xs \<noteq> []" by simp
  from len next_call have "is_framework_call (hd (drop 3 ?xs))"
    by (simp add: hd_drop_conv_nth)
  with split wid nonempty no_more
  show "\<exists>llm_value wid rest.
          ?xs = [LLM_new llm_value, create_workspace_call self, git_clone_call self wid] @ rest \<and>
          map_of (execute_result E (entity self) LOCALWORKSPACE_CREATEWORKSPACEACTION [])
            ''workspace_id'' = Some wid \<and>
          rest \<noteq> [] \<and> is_framework_call (hd rest) \<and>
          filter is_entity_execute rest = []"
    by blast
qed

text \<open>
  C8. For an agent as \<open>__init__\<close> constructed it, the log path is the log directory joined
  with \<open>agent_logs.json\<close> followed by the time stamp taken at construction, and \<open>run\<close>
  does not change it. A run that returns has opened that file exactly once, for writing
  with encoding \<open>utf-8\<close>, and written it exactly once, as its last external call: the
  text is \<open>json.dumps\<close> of the dictionary of logs, which maps the issue identifier to the
  session log, and the session log holds, in call order, the entries of the steps of the
  crew's execution.
\<close>

theorem run_saves_history_once:
  assumes "init E0 a w0 = (Inr self, w1)"
      and "run c E (self, w) = (Inr (), (self', w'))"
  shows "task_output_logs self = (agent_logs_dir a, AGENT_LOGS_JSON_PATH @ strftime (now E0)) \<and>
         task_output_logs self' = task_output_logs self \<and>
         (\<exists>body crew.
            filter is_file_call (new_calls w w') =
              [File_open (task_output_logs self) ''w'' ''utf-8'',
               File_write (task_output_logs self) body] \<and>
            is_file_call (last (trace w')) \<and>
            json_dumps E (agent_logs self') = Inr body \<and>
            files w' = (files w)(task_output_logs self \<mapsto> (''utf-8'', body)) \<and>
            agent_logs self' = [(issue_id (issue_config a), current_logs self')] \<and>
            Crew_kickoff crew \<in> set (new_calls w w') \<and>
            current_logs self' = List.map_filter log_entry_of (kickoff_steps E crew))"
proof -
  from assms(1) have self: "task_output_logs self = (agent_logs_dir a, AGENT_LOGS_JSON_PATH @ strftime (now E0))"
    "agent_logs_keys self = []" "current_logs self = []" "self_issue_config self = issue_config a"
    by (auto simp: init_def get_composio_entity_def external_apply and_then_def ok_def raise_def
          split: if_splits option.splits)
  have "case run c E (self, w) of (r, (self', w')) \<Rightarrow>
         r = Inr () \<longrightarrow>
         task_output_logs self' = task_output_logs self \<and>
         agent_logs_keys self' =
           (if issue_id (self_issue_config self) \<in> set (agent_logs_keys self) then agent_logs_keys self
            else agent_logs_keys self @ [issue_id (self_issue_config self)]) \<and>
         (\<exists>body.
            filter is_file_call (new_calls w w') =
              [File_open (task_output_logs self) ''w'' ''utf-8'',
               File_write (task_output_logs self) body] \<and>
            is_file_call (last (trace w')) \<and>
            json_dumps E (agent_logs self') = Inr body \<and>
            files w' = (files w)(task_output_logs self \<mapsto> (''utf-8'', body))) \<and>
         (\<exists>crew.
            Crew_kickoff crew \<in> set (new_calls w w') \<and>
            current_logs self' = current_logs self @ List.map_filter log_entry_of (kickoff_steps E crew))"
    unfolding run_def Let_def
    apply (simp add: run_steps new_calls_def Let_def handled_all
          split: sum.split option.split)
    done
  with assms(2) have res:
    "task_output_logs self' = task_output_logs self"
    "agent_logs_keys self' =
       (if issue_id (self_issue_config self) \<in> set (agent_logs_keys self) then agent_logs_keys self
        else agent_logs_keys self @ [issue_id (self_issue_config self)])"
    "\<exists>body.
        filter is_file_call (new_calls w w') =
          [File_open (task_output_logs self) ''w'' ''utf-8'',
           File_write (task_output_logs self) body] \<and>
        is_file_call (last (trace w')) \<and>
        json_dumps E (agent_logs self') = Inr body \<and>
        files w' = (files w)(task_output_logs self \<mapsto> (''utf-8'', body))"
    "\<exists>crew.
        Crew_kickoff crew \<in> set (new_calls w w') \<and>
        current_logs self' = current_logs self @ List.map_filter log_entry_of (kickoff_steps E crew)"
    by simp_all
  from res(3) obtain body where body:
    "filter is_file_call (new_calls w w') =
       [File_open (task_output_logs self) ''w'' ''utf-8'', File_write (task_output_logs self) body]"
    "is_file_call (last (trace w'))"
    "json_dumps E (agent_logs self') = Inr body"
    "files w' = (files w)(task_output_logs self \<mapsto> (''utf-8'', body))"
    by blast
  from res(4) self(3) obtain crew where crew:
    "Crew_kickoff crew \<in> set (new_calls w w')"
    "current_logs self' = List.map_filter log_entry_of (kickoff_steps E crew)"
    by auto
  have logs: "agent_logs self' = [(issue_id (issue_config a), current_logs self')]"
    using res(2) self(2) self(4) by (simp add: agent_logs_def)
  from self(1) res(1) body crew logs show ?thesis
    by blast
qed

section \<open>The concrete configuration, evaluated\<close>

lemmas eval_defs =
  run_def kickoff_def save_history_def get_llm_def new_llm_def get_environ_def set_environ_def
  dict_item_def on_world_def get_self_def entity_execute_def getattr_def new_agent_def
  new_task_def new_crew_def file_open_def file_write_def bind_logs_def add_in_logs_def
  append_log_def action_defs Let_def new_calls_def agent_logs_def

lemmas main_defs =
  main_constants_def quiet_externals_def main_agent_def main_args_def main_issue_config_def
  empty_world_def create_workspace_call_def git_clone_call_def git_clone_params_def
  main_llm_def main_swe_agent_def main_coding_task_def main_reviewer_agent_def
  main_review_task_def main_crew_def

lemma strftime_main: "strftime (now quiet_externals) = ''05_17_2024_09_03_07''"
  by code_simp

lemma main_run:
  "run main_constants quiet_externals (main_agent, empty_world) =
     (Inr (), (main_final_agent, main_final_world))"
  by (simp add: eval_defs main_defs main_final_agent_def main_final_world_def)

lemma main_init:
  "init quiet_externals main_args empty_world = (Inr main_agent, constructed_world)"
  apply (simp only: init_def strftime_main)
  apply (simp add: get_composio_entity_def action_defs main_args_def main_issue_config_def
        empty_world_def main_agent_def AGENT_LOGS_JSON_PATH_def quiet_externals_def
        constructed_world_def)
  done

lemma clone_fails_run:
  "run main_constants clone_fails_externals (main_agent, empty_world) =
     (Inl (ExternalError ''clone failed''), (main_agent, clone_fails_world))"
  by (simp add: eval_defs main_defs clone_fails_externals_def clone_fails_world_def)

section \<open>The properties of the run on the concrete configuration\<close>

lemma clone_fails_facts:
  "git_clone_call main_agent ''ws-1'' \<in> set (new_calls empty_world clone_fails_world)"
  "is_entity_execute (git_clone_call main_agent ''ws-1'')"
  "raises clone_fails_externals (git_clone_call main_agent ''ws-1'') = Some (ExternalError ''clone failed'')"
  by (simp_all add: new_calls_def empty_world_def clone_fails_world_def git_clone_call_def
        clone_fails_externals_def)

theorem run_aborts_unsaved_witness:
  "run main_constants clone_fails_externals (main_agent, empty_world) =
     (Inl (ExternalError ''clone failed''), (main_agent, clone_fails_world)) \<and>
   git_clone_call main_agent ''ws-1'' \<in> set (new_calls empty_world clone_fails_world) \<and>
   is_entity_execute (git_clone_call main_agent ''ws-1'') \<and>
   raises clone_fails_externals (git_clone_call main_agent ''ws-1'') = Some (ExternalError ''clone failed'') \<and>
   last (trace clone_fails_world) = git_clone_call main_agent ''ws-1'' \<and>
   files clone_fails_world = files empty_world \<and>
   filter is_file_call (new_calls empty_world clone_fails_world) = []"
proof -
  have "is_entity_execute (git_clone_call main_agent ''ws-1'') \<or>
        (\<exists>crew. git_clone_call main_agent ''ws-1'' = Crew_kickoff crew)"
    using clone_fails_facts(2) by simp
  from run_aborts_unsaved [OF clone_fails_run clone_fails_facts(1) this clone_fails_facts(3)]
    clone_fails_run clone_fails_facts
  show ?thesis by blast
qed

lemma main_new_calls:
  "new_calls empty_world main_final_world =
     [LLM_new main_llm, create_workspace_call main_agent, git_clone_call main_agent ''ws-1'',
      Agent_new main_swe_agent, Task_new main_coding_task, Agent_new main_reviewer_agent,
      Task_new main_review_task, Crew_new main_crew, Crew_kickoff main_crew,
      File_open (''logs'', ''agent_logs.json05_17_2024_09_03_07'') ''w'' ''utf-8'',
      File_write (''logs'', ''agent_logs.json05_17_2024_09_03_07'') ''{}'']"
  by (simp add: new_calls_def empty_world_def main_final_world_def)

theorem run_create_clone_then_construct_witness:
  "run main_constants quiet_externals (main_agent, empty_world) =
     (Inr (), (main_final_agent, main_final_world)) \<and>
   map_of (git_clone_params main_agent ''ws-1'') ''branch_name'' =
     Some (base_commit_id (self_issue_config main_agent)) \<and>
   base_commit_id (self_issue_config main_agent) = ''shubhra/linter'' \<and>
   (\<exists>llm_value wid rest.
      new_calls empty_world main_final_world =
        [LLM_new llm_value, create_workspace_call main_agent, git_clone_call main_agent wid] @ rest \<and>
      map_of (execute_result quiet_externals (entity main_agent) LOCALWORKSPACE_CREATEWORKSPACEACTION [])
        ''workspace_id'' = Some wid \<and>
      rest \<noteq> [] \<and> is_framework_call (hd rest) \<and> filter is_entity_execute rest = [])"
proof -
  note t = run_create_clone_then_construct [OF main_run]
  have b: "base_commit_id (self_issue_config main_agent) = ''shubhra/linter''"
    by (simp add: main_agent_def main_issue_config_def)
  from t main_run b show ?thesis by blast
qed

theorem run_saves_history_once_witness:
  "init quiet_externals main_args empty_world = (Inr main_agent, constructed_world) \<and>
   run main_constants quiet_externals (main_agent, empty_world) =
     (Inr (), (main_final_agent, main_final_world)) \<and>
   task_output_logs main_agent =
     (agent_logs_dir main_args, AGENT_LOGS_JSON_PATH @ strftime (now quiet_externals)) \<and>
   task_output_logs main_final_agent = task_output_logs main_agent \<and>
   (\<exists>body crew.
      filter is_file_call (new_calls empty_world main_final_world) =
        [File_open (task_output_logs main_agent) ''w'' ''utf-8'',
         File_write (task_output_logs main_agent) body] \<and>
      is_file_call (last (trace main_final_world)) \<and>
      json_dumps quiet_externals (agent_logs main_final_agent) = Inr body \<and>
      files main_final_world = (files empty_world)(task_output_logs main_agent \<mapsto> (''utf-8'', body)) \<and>
      agent_logs main_final_agent = [(issue_id (issue_config main_args), current_logs main_final_agent)] \<and>
      Crew_kickoff crew \<in> set (new_calls empty_world main_final_world) \<and>
      current_logs main_final_agent = List.map_filter log_entry_of (kickoff_steps quiet_externals crew))"
  using run_saves_history_once [OF main_init main_run] main_init main_run
  by blast

theorem run_crew_excludes_reviewer_witness:
  "run main_constants quiet_externals (main_agent, empty_world) =
     (Inr (), (main_final_agent, main_final_world)) \<and>
   Crew_kickoff main_crew \<in> set (new_calls empty_world main_final_world) \<and>
   (\<exists>llm_value backstory_text issue_text.
      let swe_agent = swe_agent_kwargs main_agent llm_value backstory_text None;
          coding_task = coding_task_kwargs main_agent issue_text swe_agent;
          reviewer_agent = reviewer_agent_kwargs main_agent llm_value None;
          review_task = review_task_kwargs reviewer_agent coding_task
      in filter is_framework_call (new_calls empty_world main_final_world) =
           [Agent_new swe_agent, Task_new coding_task, Agent_new reviewer_agent,
            Task_new review_task, Crew_new main_crew, Crew_kickoff main_crew] \<and>
         agents main_crew = [swe_agent] \<and> tasks main_crew = [coding_task] \<and>
         reviewer_agent \<notin> set (agents main_crew) \<and> review_task \<notin> set (tasks main_crew))"
proof -
  have k: "Crew_kickoff main_crew \<in> set (new_calls empty_world main_final_world)"
    by (simp add: main_new_calls)
  from run_crew_excludes_reviewer [OF main_run] k main_run show ?thesis
    by blast
qed


end
